theory Spec2Isabelle
  imports Complex_Main "HOL-Library.Sublist"
begin

section \<open>JavaScript values as the handlers see them\<close>

text \<open>
  A request body is whatever \<^verbatim>\<open>request.json()\<close> parses: any JSON value. Numbers are
  reals (the finite doubles, idealised, and so are the clock readings); a string is the
  list of its code units, one \<open>char\<close> each. An object is the list of its own properties
  in enumeration order, with distinct keys.
\<close>

datatype json =
    JNull
  | JBool bool
  | JNum real
  | JStr string
  | JArr "json list"
  | JObj "(string \<times> json) list"

text \<open>
  A value a handler holds in a local variable: \<^verbatim>\<open>undefined\<close>, a JSON value, or a
  property inherited from \<^verbatim>\<open>Object.prototype\<close> (named by its key), which a plain
  object such as \<^verbatim>\<open>room.members\<close> yields for a key it does not own.
\<close>

datatype jsval = Undefined | Json json | Builtin string

datatype js_error = TypeError

fun truthy :: "json \<Rightarrow> bool" where
  "truthy JNull = False"
| "truthy (JBool b) = b"
| "truthy (JNum n) = (n \<noteq> 0)"
| "truthy (JStr s) = (s \<noteq> [])"
| "truthy (JArr xs) = True"
| "truthy (JObj kvs) = True"

fun truthy_val :: "jsval \<Rightarrow> bool" where
  "truthy_val Undefined = False"
| "truthy_val (Json v) = truthy v"
| "truthy_val (Builtin k) = True"

text \<open>
  \<^verbatim>\<open>data.k\<close> and \<^verbatim>\<open>data?.k\<close> for the keys the handlers read (\<^verbatim>\<open>room_hash\<close>,
  \<^verbatim>\<open>nickname\<close>, \<^verbatim>\<open>member_id\<close>, \<^verbatim>\<open>sender\<close>, \<^verbatim>\<open>content\<close>, \<^verbatim>\<open>ip\<close>,
  \<^verbatim>\<open>allowed\<close>, \<^verbatim>\<open>retry_after\<close>): none of them is a property of a built-in
  prototype, so only an object's own property answers. Every read of a body is guarded
  (\<^verbatim>\<open>!data ||\<close> or \<^verbatim>\<open>?.\<close>), so \<^verbatim>\<open>null\<close> reads as \<^verbatim>\<open>undefined\<close> here.
\<close>

fun js_prop :: "json \<Rightarrow> string \<Rightarrow> jsval" where
  "js_prop (JObj kvs) k = (case map_of kvs k of Some v \<Rightarrow> Json v | None \<Rightarrow> Undefined)"
| "js_prop v k = Undefined"

text \<open>\<^verbatim>\<open>a || b\<close>\<close>

definition or_else :: "jsval \<Rightarrow> jsval \<Rightarrow> jsval" where
  "or_else a b = (if truthy_val a then a else b)"

text \<open>\<^verbatim>\<open>strings.join(',')\<close>\<close>

fun join_commas :: "string list \<Rightarrow> string" where
  "join_commas [] = []"
| "join_commas [s] = s"
| "join_commas (s # t # rest) = s @ '','' @ join_commas (t # rest)"

text \<open>The first exception of a sequence of evaluations is the one thrown.\<close>

fun all_or_error :: "(js_error + 'a) list \<Rightarrow> js_error + 'a list" where
  "all_or_error [] = Inr []"
| "all_or_error (Inl e # rest) = Inl e"
| "all_or_error (Inr x # rest) =
     (case all_or_error rest of Inl e \<Rightarrow> Inl e | Inr xs \<Rightarrow> Inr (x # xs))"

text \<open>
  The conversion to a string (ToString of the language standard): \<^verbatim>\<open>ns\<close> is
  \<^verbatim>\<open>Number.prototype.toString\<close>, a parameter. An array joins its elements with commas,
  \<^verbatim>\<open>null\<close> elements as empty strings. A parsed object is \<^verbatim>\<open>[object Object]\<close>,
  unless it has a property \<^verbatim>\<open>toString\<close> of its own: that one is JSON, so not callable,
  and the conversion throws.
\<close>

fun ToString :: "(real \<Rightarrow> string) \<Rightarrow> json \<Rightarrow> js_error + string" where
  "ToString ns JNull = Inr ''null''"
| "ToString ns (JBool b) = Inr (if b then ''true'' else ''false'')"
| "ToString ns (JNum n) = Inr (ns n)"
| "ToString ns (JStr s) = Inr s"
| "ToString ns (JArr xs) =
     (case all_or_error (map (\<lambda>x. if x = JNull then Inr [] else ToString ns x) xs) of
        Inl e \<Rightarrow> Inl e
      | Inr strs \<Rightarrow> Inr (join_commas strs))"
| "ToString ns (JObj kvs) =
     (if map_of kvs ''toString'' \<noteq> None then Inl TypeError else Inr ''[object Object]'')"

text \<open>The own and inherited properties of \<^verbatim>\<open>Object.prototype\<close>.\<close>

definition object_prototype_keys :: "string list" where
  "object_prototype_keys =
     [''constructor'', ''__defineGetter__'', ''__defineSetter__'', ''hasOwnProperty'',
      ''__lookupGetter__'', ''__lookupSetter__'', ''isPrototypeOf'', ''propertyIsEnumerable'',
      ''toString'', ''valueOf'', ''__proto__'', ''toLocaleString'']"

text \<open>
  What \<^verbatim>\<open>.toString()\<close> prints for an inherited property: \<^verbatim>\<open>__proto__\<close> reads as the
  prototype object itself, \<^verbatim>\<open>constructor\<close> is the function \<^verbatim>\<open>Object\<close>, every other
  one is a native function of its own name.
\<close>

definition builtin_text :: "string \<Rightarrow> string" where
  "builtin_text k =
     (if k = ''__proto__'' then ''[object Object]''
      else ''function '' @ (if k = ''constructor'' then ''Object'' else k)
             @ ''() { [native code] }'')"

text \<open>\<^verbatim>\<open>v.toString()\<close>, a method call: it throws on \<^verbatim>\<open>undefined\<close> and \<^verbatim>\<open>null\<close>.\<close>

fun toString :: "(real \<Rightarrow> string) \<Rightarrow> jsval \<Rightarrow> js_error + string" where
  "toString ns Undefined = Inl TypeError"
| "toString ns (Json JNull) = Inl TypeError"
| "toString ns (Json v) = ToString ns v"
| "toString ns (Builtin k) = Inr (builtin_text k)"

subsection \<open>The members object\<close>

text \<open>
  \<^verbatim>\<open>Record<string, string>\<close>, a plain object: the list of its own properties in the order
  \<^verbatim>\<open>Object.values\<close> walks them, array indices first in ascending order, then the other
  keys in the order they were added.
\<close>

type_synonym members_obj = "(string \<times> string) list"

definition is_digit :: "char \<Rightarrow> bool" where
  "is_digit c = (48 \<le> (of_char c :: nat) \<and> (of_char c :: nat) \<le> 57)"

definition dec_val :: "string \<Rightarrow> nat" where
  "dec_val s = foldl (\<lambda>n c. 10 * n + ((of_char c :: nat) - 48)) 0 s"

definition is_index :: "string \<Rightarrow> bool" where
  "is_index k =
     (k \<noteq> [] \<and> list_all is_digit k \<and> (k = ''0'' \<or> hd k \<noteq> CHR ''0'')
      \<and> dec_val k < 2 ^ 32 - 1)"

fun obj_insert :: "string \<Rightarrow> string \<Rightarrow> members_obj \<Rightarrow> members_obj" where
  "obj_insert k v [] = [(k, v)]"
| "obj_insert k v ((k', v') # rest) =
     (if is_index k \<and> (\<not> is_index k' \<or> dec_val k < dec_val k')
      then (k, v) # (k', v') # rest
      else (k', v') # obj_insert k v rest)"

text \<open>\<^verbatim>\<open>members[k] = v\<close>\<close>

definition obj_set :: "members_obj \<Rightarrow> string \<Rightarrow> string \<Rightarrow> members_obj" where
  "obj_set ms k v =
     (if map_of ms k \<noteq> None
      then map (\<lambda>(k', v'). if k' = k then (k', v) else (k', v')) ms
      else obj_insert k v ms)"

text \<open>\<^verbatim>\<open>delete members[k]\<close>\<close>

definition obj_delete :: "members_obj \<Rightarrow> string \<Rightarrow> members_obj" where
  "obj_delete ms k = filter (\<lambda>(k', v'). k' \<noteq> k) ms"

text \<open>\<^verbatim>\<open>members[k]\<close>: the own property, else the one \<^verbatim>\<open>Object.prototype\<close> has.\<close>

definition obj_get :: "members_obj \<Rightarrow> string \<Rightarrow> jsval" where
  "obj_get ms k =
     (case map_of ms k of
        Some v \<Rightarrow> Json (JStr v)
      | None \<Rightarrow> if k \<in> set object_prototype_keys then Builtin k else Undefined)"

text \<open>\<^verbatim>\<open>Object.values(members)\<close>\<close>

definition obj_values :: "members_obj \<Rightarrow> json" where
  "obj_values ms = JArr (map (\<lambda>(k, v). JStr v) ms)"

section \<open>Constants\<close>

definition ROOM_TTL_SECONDS :: real where
  "ROOM_TTL_SECONDS = 3600"

definition MAX_MESSAGES :: nat where
  "MAX_MESSAGES = 500"

definition RATE_LIMIT_COOLDOWN_SECONDS :: real where
  "RATE_LIMIT_COOLDOWN_SECONDS = 1800"

definition RATE_LIMIT_DELAYS_SECONDS :: "real list" where
  "RATE_LIMIT_DELAYS_SECONDS = [0, 10, 30, 60, 180, 300]"

section \<open>The runtime a handler runs in\<close>

text \<open>
  \<^verbatim>\<open>now_at rt i\<close> is what the \<open>i\<close>-th call of \<^verbatim>\<open>nowSeconds()\<close> made while one request is
  handled returns (\<^verbatim>\<open>Date.now() / 1000\<close>), \<^verbatim>\<open>random_at rt i\<close> what the \<open>i\<close>-th call of
  \<^verbatim>\<open>Math.random()\<close> returns, \<^verbatim>\<open>number_text\<close> is \<^verbatim>\<open>Number.prototype.toString\<close>.
\<close>

record runtime =
  now_at :: "nat \<Rightarrow> real"
  random_at :: "nat \<Rightarrow> real"
  number_text :: "real \<Rightarrow> string"

definition alphabet :: string where
  "alphabet = ''abcdefghijklmnopqrstuvwxyz0123456789''"

text \<open>
  \<^verbatim>\<open>alphabet[Math.floor(r * alphabet.length)]\<close>, appended to a string: a read out of
  range is \<^verbatim>\<open>undefined\<close> and appends that word.
\<close>

definition pick :: "real \<Rightarrow> string" where
  "pick r =
     (let i = \<lfloor>r * real (length alphabet)\<rfloor>
      in if 0 \<le> i \<and> nat i < length alphabet then [alphabet ! nat i] else ''undefined'')"

definition randomId :: "runtime \<Rightarrow> nat \<Rightarrow> string" where
  "randomId rt len = concat (map (\<lambda>i. pick (random_at rt i)) [0..<len])"

type_synonym response = "nat \<times> json"

definition jsonResponse :: "json \<Rightarrow> nat \<Rightarrow> response" where
  "jsonResponse data status = (status, data)"

definition error_body :: "string \<Rightarrow> json" where
  "error_body e = JObj [(''error'', JStr e)]"

text \<open>\<^verbatim>\<open>readJson\<close>: the parsed body, \<^verbatim>\<open>null\<close> when the body does not parse.\<close>

definition readJson :: "json option \<Rightarrow> json" where
  "readJson body = (case body of Some v \<Rightarrow> v | None \<Rightarrow> JNull)"

section \<open>The room entity\<close>

datatype RoomMode = Fixed

record Message =
  msg_id :: string
  sender :: string
  content :: string
  timestamp :: real

record RoomData =
  room_hash :: string
  mode :: RoomMode
  created_at :: real
  expires_at :: real
  members :: members_obj
  messages :: "Message list"

text \<open>The storage of one room entity is its key \<^verbatim>\<open>room\<close>: a record or nothing.\<close>

type_synonym room_storage = "RoomData option"

text \<open>What a handler leaves: the response or the exception, and the storage.\<close>

type_synonym room_result = "(js_error + response) \<times> room_storage"

definition mode_json :: "RoomMode \<Rightarrow> json" where
  "mode_json m = (case m of Fixed \<Rightarrow> JStr ''fixed'')"

definition message_json :: "Message \<Rightarrow> json" where
  "message_json m =
     JObj [(''id'', JStr (msg_id m)), (''sender'', JStr (sender m)),
           (''content'', JStr (content m)), (''timestamp'', JNum (timestamp m))]"

text \<open>\<^verbatim>\<open>getRoom\<close> at clock reading \<open>now\<close>: the room it returns and the storage it leaves.\<close>

definition getRoom :: "real \<Rightarrow> room_storage \<Rightarrow> RoomData option \<times> room_storage" where
  "getRoom now st =
     (case st of
        None \<Rightarrow> (None, st)
      | Some room \<Rightarrow> if now > expires_at room then (None, None) else (Some room, st))"

definition saveRoom :: "RoomData \<Rightarrow> room_storage" where
  "saveRoom room = Some room"

definition room_not_found :: response where
  "room_not_found = jsonResponse (error_body ''room_not_found'') 404"

definition handleCreate :: "runtime \<Rightarrow> string \<Rightarrow> json option \<Rightarrow> room_storage \<Rightarrow> room_result" where
  "handleCreate rt roomHash body st =
     (case getRoom (now_at rt 0) st of
        (Some existing, st1) \<Rightarrow> (Inr (jsonResponse (error_body ''room_exists'') 409), st1)
      | (None, st1) \<Rightarrow>
          (let data = readJson body in
           if \<not> truthy data \<or> js_prop data ''room_hash'' \<noteq> Json (JStr roomHash)
           then (Inr (jsonResponse (error_body ''invalid_room_hash'') 400), st1)
           else
             (let now = now_at rt 1;
                  memberId = randomId rt 8;
                  room = \<lparr> room_hash = roomHash, mode = Fixed, created_at = now,
                           expires_at = now + ROOM_TTL_SECONDS,
                           members = obj_set [] memberId ''creator'', messages = [] \<rparr>
              in (Inr (jsonResponse (JObj
                    [(''room_hash'', JStr (room_hash room)),
                     (''mode'', mode_json (mode room)),
                     (''created_at'', JNum (created_at room)),
                     (''expires_at'', JNum (expires_at room)),
                     (''member_id'', JStr memberId),
                     (''members'', obj_values (members room))]) 200),
                  saveRoom room))))"

definition handleJoin :: "runtime \<Rightarrow> string \<Rightarrow> json option \<Rightarrow> room_storage \<Rightarrow> room_result" where
  "handleJoin rt roomHash body st =
     (case getRoom (now_at rt 0) st of
        (None, st1) \<Rightarrow> (Inr room_not_found, st1)
      | (Some room, st1) \<Rightarrow>
          if room_hash room \<noteq> roomHash then (Inr room_not_found, st1)
          else
            (let data = readJson body in
             case toString (number_text rt) (or_else (js_prop data ''nickname'') (Json (JStr ''anon''))) of
               Inl e \<Rightarrow> (Inl e, st1)
             | Inr text \<Rightarrow>
                 (let nickname = take 20 text;
                      memberId = randomId rt 8;
                      room1 = room \<lparr> members := obj_set (members room) memberId nickname \<rparr>
                  in (Inr (jsonResponse (JObj
                        [(''room_hash'', JStr (room_hash room1)),
                         (''mode'', mode_json (mode room1)),
                         (''created_at'', JNum (created_at room1)),
                         (''expires_at'', JNum (expires_at room1)),
                         (''member_id'', JStr memberId),
                         (''members'', obj_values (members room1)),
                         (''message_count'', JNum (real (length (messages room1)))),
                         (''last_message_ts'',
                            JNum (if messages room1 = [] then 0
                                  else timestamp (last (messages room1))))]) 200),
                      saveRoom room1))))"

text \<open>
  The sender of a message: \<^verbatim>\<open>data.sender || 'anon'\<close>, replaced by
  \<^verbatim>\<open>room.members[memberId]\<close> when \<^verbatim>\<open>memberId && room.members[memberId]\<close> is truthy.
  Reading \<^verbatim>\<open>room.members[memberId]\<close> converts the key to a string first.
\<close>

definition resolve_sender :: "(real \<Rightarrow> string) \<Rightarrow> members_obj \<Rightarrow> json \<Rightarrow> js_error + jsval" where
  "resolve_sender ns ms data =
     (let memberId = js_prop data ''member_id'';
          sender0 = or_else (js_prop data ''sender'') (Json (JStr ''anon''))
      in case memberId of
           Json m \<Rightarrow>
             if truthy m
             then (case ToString ns m of
                     Inl e \<Rightarrow> Inl e
                   | Inr k \<Rightarrow> Inr (if truthy_val (obj_get ms k) then obj_get ms k else sender0))
             else Inr sender0
         | _ \<Rightarrow> Inr sender0)"

text \<open>
  The message \<^verbatim>\<open>handleSend\<close> builds: its fields are evaluated in order, and a
  \<^verbatim>\<open>toString()\<close> that throws ends the handler.
\<close>

definition new_message :: "runtime \<Rightarrow> members_obj \<Rightarrow> json \<Rightarrow> js_error + Message" where
  "new_message rt ms data =
     (case resolve_sender (number_text rt) ms data of
        Inl e \<Rightarrow> Inl e
      | Inr sender1 \<Rightarrow>
          (case toString (number_text rt) sender1 of
             Inl e \<Rightarrow> Inl e
           | Inr sender_text \<Rightarrow>
               (case toString (number_text rt) (js_prop data ''content'') of
                  Inl e \<Rightarrow> Inl e
                | Inr content_text \<Rightarrow>
                    Inr \<lparr> msg_id = randomId rt 12, sender = sender_text,
                          content = content_text, timestamp = now_at rt 1 \<rparr>)))"

text \<open>\<^verbatim>\<open>messages.push(msg)\<close>, then \<^verbatim>\<open>slice(-MAX_MESSAGES)\<close> when the bound is exceeded.\<close>

definition push_trim :: "Message list \<Rightarrow> Message \<Rightarrow> Message list" where
  "push_trim msgs msg =
     (let pushed = msgs @ [msg]
      in if length pushed > MAX_MESSAGES
         then drop (length pushed - MAX_MESSAGES) pushed
         else pushed)"

definition handleSend :: "runtime \<Rightarrow> string \<Rightarrow> json option \<Rightarrow> room_storage \<Rightarrow> room_result" where
  "handleSend rt roomHash body st =
     (case getRoom (now_at rt 0) st of
        (None, st1) \<Rightarrow> (Inr room_not_found, st1)
      | (Some room, st1) \<Rightarrow>
          if room_hash room \<noteq> roomHash then (Inr room_not_found, st1)
          else
            (let data = readJson body in
             if \<not> truthy data \<or> \<not> truthy_val (js_prop data ''content'')
             then (Inr (jsonResponse (error_body ''missing_content'') 400), st1)
             else
               (case new_message rt (members room) data of
                  Inl e \<Rightarrow> (Inl e, st1)
                | Inr msg \<Rightarrow>
                    (let room1 = room \<lparr> messages := push_trim (messages room) msg \<rparr>
                     in (Inr (jsonResponse (JObj
                           [(''id'', JStr (msg_id msg)),
                            (''timestamp'', JNum (timestamp msg))]) 200),
                         saveRoom room1)))))"

text \<open>
  The number \<^verbatim>\<open>parseFloat\<close> reads from a query string: a real, \<^verbatim>\<open>NaN\<close> or an infinity.
\<close>

datatype parsed_number = Finite real | NaN | PosInfinity | NegInfinity

text \<open>\<^verbatim>\<open>ts > since\<close> for a finite \<^verbatim>\<open>ts\<close>\<close>

fun greater_than :: "real \<Rightarrow> parsed_number \<Rightarrow> bool" where
  "greater_than ts (Finite s) = (ts > s)"
| "greater_than ts NaN = False"
| "greater_than ts PosInfinity = False"
| "greater_than ts NegInfinity = True"

text \<open>
  \<^verbatim>\<open>parseFloat(url.searchParams.get('since') || '0')\<close>; the argument is what
  \<^verbatim>\<open>parseFloat\<close> reads from the parameter when it is there and not empty.
\<close>

definition since_of :: "parsed_number option \<Rightarrow> parsed_number" where
  "since_of q = (case q of None \<Rightarrow> Finite 0 | Some n \<Rightarrow> n)"

definition handlePoll :: "runtime \<Rightarrow> string \<Rightarrow> parsed_number option \<Rightarrow> room_storage \<Rightarrow> room_result" where
  "handlePoll rt roomHash q st =
     (case getRoom (now_at rt 0) st of
        (None, st1) \<Rightarrow> (Inr room_not_found, st1)
      | (Some room, st1) \<Rightarrow>
          if room_hash room \<noteq> roomHash then (Inr room_not_found, st1)
          else
            (let since = since_of q;
                 msgs = filter (\<lambda>msg. greater_than (timestamp msg) since) (messages room)
             in (Inr (jsonResponse (JObj
                   [(''messages'', JArr (map message_json msgs)),
                    (''members'', obj_values (members room)),
                    (''expires_at'', JNum (expires_at room)),
                    (''message_count'', JNum (real (length (messages room))))]) 200),
                 st1)))"

definition handleLeave :: "runtime \<Rightarrow> string \<Rightarrow> json option \<Rightarrow> room_storage \<Rightarrow> room_result" where
  "handleLeave rt roomHash body st =
     (case getRoom (now_at rt 0) st of
        (None, st1) \<Rightarrow> (Inr room_not_found, st1)
      | (Some room, st1) \<Rightarrow>
          if room_hash room \<noteq> roomHash then (Inr room_not_found, st1)
          else
            (let data = readJson body;
                 left = jsonResponse (JObj [(''status'', JStr ''left'')]) 200
             in case js_prop data ''member_id'' of
                  Json m \<Rightarrow>
                    if truthy m
                    then (case ToString (number_text rt) m of
                            Inl e \<Rightarrow> (Inl e, st1)
                          | Inr k \<Rightarrow>
                              if truthy_val (obj_get (members room) k)
                              then (Inr left,
                                    saveRoom (room \<lparr> members := obj_delete (members room) k \<rparr>))
                              else (Inr left, st1))
                    else (Inr left, st1)
                | _ \<Rightarrow> (Inr left, st1)))"

definition handleInfo :: "runtime \<Rightarrow> string \<Rightarrow> room_storage \<Rightarrow> room_result" where
  "handleInfo rt roomHash st =
     (case getRoom (now_at rt 0) st of
        (None, st1) \<Rightarrow> (Inr room_not_found, st1)
      | (Some room, st1) \<Rightarrow>
          if room_hash room \<noteq> roomHash then (Inr room_not_found, st1)
          else
            (let timeRemaining = max 0 \<lfloor>expires_at room - now_at rt 1\<rfloor>
             in (Inr (jsonResponse (JObj
                   [(''room_hash'', JStr (room_hash room)),
                    (''mode'', mode_json (mode room)),
                    (''created_at'', JNum (created_at room)),
                    (''expires_at'', JNum (expires_at room)),
                    (''members'', obj_values (members room)),
                    (''message_count'', JNum (real (length (messages room)))),
                    (''time_remaining'', JNum (real_of_int timeRemaining))]) 200),
                 st1)))"

section \<open>Requests and the room entity's dispatch\<close>

text \<open>
  A request as the code reads it: the method, \<^verbatim>\<open>new URL(request.url).pathname\<close>, the
  query parameter \<^verbatim>\<open>since\<close> (as \<^verbatim>\<open>parseFloat\<close> reads it, when there and not empty),
  the three address headers and the body (when it parses as JSON).
\<close>

record Request =
  req_method :: string
  pathname :: string
  since_param :: "parsed_number option"
  cf_connecting_ip :: "string option"
  x_forwarded_for :: "string option"
  x_real_ip :: "string option"
  req_body :: "json option"

text \<open>\<^verbatim>\<open>s.split(c)\<close>\<close>

fun split_on :: "char \<Rightarrow> string \<Rightarrow> string list" where
  "split_on c [] = [[]]"
| "split_on c (x # xs) =
     (if x = c then [] # split_on c xs
      else (case split_on c xs of
              [] \<Rightarrow> [[x]]
            | p # ps \<Rightarrow> (x # p) # ps))"

text \<open>\<^verbatim>\<open>pathname.split('/').filter(Boolean)\<close>\<close>

definition path_parts :: "string \<Rightarrow> string list" where
  "path_parts p = filter (\<lambda>s. s \<noteq> []) (split_on CHR ''/'' p)"

definition not_found :: response where
  "not_found = jsonResponse (error_body ''not_found'') 404"

definition SOSRoom_fetch :: "runtime \<Rightarrow> Request \<Rightarrow> room_storage \<Rightarrow> room_result" where
  "SOSRoom_fetch rt request st =
     (let parts = path_parts (pathname request) in
      if length parts < 2 \<or> parts ! 0 \<noteq> ''room'' then (Inr not_found, st)
      else
        (let roomHash = parts ! 1;
             action = (if length parts > 2 then parts ! 2 else [])
         in if action = ''create'' \<and> req_method request = ''POST''
              then handleCreate rt roomHash (req_body request) st
            else if action = ''join'' \<and> req_method request = ''POST''
              then handleJoin rt roomHash (req_body request) st
            else if action = ''send'' \<and> req_method request = ''POST''
              then handleSend rt roomHash (req_body request) st
            else if action = ''poll'' \<and> req_method request = ''GET''
              then handlePoll rt roomHash (since_param request) st
            else if action = ''leave'' \<and> req_method request = ''POST''
              then handleLeave rt roomHash (req_body request) st
            else if action = ''info'' \<and> req_method request = ''GET''
              then handleInfo rt roomHash st
            else (Inr not_found, st)))"

text \<open>
  The entity handles its requests one at a time: the storage after a sequence of them,
  each in its own runtime.
\<close>

fun room_run :: "(runtime \<times> Request) list \<Rightarrow> room_storage \<Rightarrow> room_storage" where
  "room_run [] st = st"
| "room_run ((rt, request) # rest) st = room_run rest (snd (SOSRoom_fetch rt request st))"

section \<open>The rate limiter entity\<close>

record RateEntry =
  count :: nat
  last_attempt :: real

text \<open>The storage of the rate limiter: one entry per key \<^verbatim>\<open>ip:<address>\<close>.\<close>

type_synonym rate_storage = "string \<rightharpoonup> RateEntry"

record CheckResult =
  allowed :: bool
  retry_after :: int

definition check :: "real \<Rightarrow> string \<Rightarrow> rate_storage \<Rightarrow> CheckResult \<times> rate_storage" where
  "check now ip st =
     (let key = ''ip:'' @ ip in
      case st key of
        None \<Rightarrow>
          (\<lparr> allowed = True, retry_after = 0 \<rparr>,
           st(key \<mapsto> \<lparr> count = 1, last_attempt = now \<rparr>))
      | Some entry \<Rightarrow>
          if now - last_attempt entry > RATE_LIMIT_COOLDOWN_SECONDS
          then (\<lparr> allowed = True, retry_after = 0 \<rparr>,
                st(key \<mapsto> \<lparr> count = 1, last_attempt = now \<rparr>))
          else
            (let delayIndex = min (count entry) (length RATE_LIMIT_DELAYS_SECONDS - 1);
                 requiredDelay = RATE_LIMIT_DELAYS_SECONDS ! delayIndex;
                 elapsed = now - last_attempt entry
             in if elapsed \<ge> requiredDelay
                then (\<lparr> allowed = True, retry_after = 0 \<rparr>,
                      st(key \<mapsto> \<lparr> count = count entry + 1, last_attempt = now \<rparr>))
                else (\<lparr> allowed = False, retry_after = \<lceil>requiredDelay - elapsed\<rceil> \<rparr>, st)))"




section \<open>The worker\<close>

















definition post_request :: "string \<Rightarrow> json \<Rightarrow> Request" where
  "post_request path body =
     \<lparr> req_method = ''POST'', pathname = path, since_param = None,
       cf_connecting_ip = None, x_forwarded_for = None, x_real_ip = None,
       req_body = Some body \<rparr>"


section \<open>Notions the properties are stated with\<close>

text \<open>The stored room, if any, holds at most \<open>MAX_MESSAGES\<close> messages.\<close>

definition bounded :: "room_storage \<Rightarrow> bool" where
  "bounded st = (case st of None \<Rightarrow> True | Some room \<Rightarrow> length (messages room) \<le> MAX_MESSAGES)"

text \<open>A room is stored, with the identity and the deadline of \<open>room\<close>.\<close>

definition same_frame :: "RoomData \<Rightarrow> room_storage \<Rightarrow> bool" where
  "same_frame room st =
     (case st of
        None \<Rightarrow> False
      | Some room' \<Rightarrow> room_hash room' = room_hash room \<and> mode room' = mode room
          \<and> created_at room' = created_at room \<and> expires_at room' = expires_at room)"

text \<open>
  The room accepts a send (its runtime and body) and builds \<open>msg\<close> for it: the room is live
  under the hash, the content is true, and no conversion throws. Nothing here depends on
  the messages the room holds.
\<close>

definition accepts :: "string \<Rightarrow> RoomData \<Rightarrow> runtime \<times> json option \<Rightarrow> Message \<Rightarrow> bool" where
  "accepts h room send msg =
     (case send of (rt, body) \<Rightarrow>
        now_at rt 0 \<le> expires_at room \<and> room_hash room = h
        \<and> truthy (readJson body) \<and> truthy_val (js_prop (readJson body) ''content'')
        \<and> new_message rt (members room) (readJson body) = Inr msg)"

text \<open>The storage after a sequence of sends under one room hash.\<close>

fun send_each :: "(runtime \<times> json option) list \<Rightarrow> string \<Rightarrow> room_storage \<Rightarrow> room_storage" where
  "send_each [] h st = st"
| "send_each ((rt, body) # rest) h st = send_each rest h (snd (handleSend rt h body st))"

text \<open>
  The key a \<^verbatim>\<open>member_id\<close> names in \<^verbatim>\<open>memberId && room.members[memberId]\<close>: none when
  it is absent or false in the language's sense, else its conversion to a string, which
  may throw.
\<close>

definition key_of :: "(real \<Rightarrow> string) \<Rightarrow> jsval \<Rightarrow> js_error + string option" where
  "key_of ns v =
     (case v of
        Json m \<Rightarrow>
          if truthy m
          then (case ToString ns m of Inl e \<Rightarrow> Inl e | Inr k \<Rightarrow> Inr (Some k))
          else Inr None
      | _ \<Rightarrow> Inr None)"

text \<open>
  The text a \<^verbatim>\<open>sender\<close> supplies: none when it is absent or false in the language's
  sense, else what its \<^verbatim>\<open>toString()\<close> returns, which may throw.
\<close>

definition text_of :: "(real \<Rightarrow> string) \<Rightarrow> jsval \<Rightarrow> js_error + string option" where
  "text_of ns v =
     (if truthy_val v
      then (case toString ns v of Inl e \<Rightarrow> Inl e | Inr s \<Rightarrow> Inr (Some s))
      else Inr None)"

text \<open>
  The sender the specification gives a message: the non-empty nickname stored under the
  key the member id names, else the text the sender supplies, else \<^verbatim>\<open>anon\<close>.
\<close>

definition sender_for :: "members_obj \<Rightarrow> string option \<Rightarrow> string option \<Rightarrow> string" where
  "sender_for ms member supplied =
     (let fallback = (case supplied of Some s \<Rightarrow> s | None \<Rightarrow> ''anon'')
      in case member of
           None \<Rightarrow> fallback
         | Some k \<Rightarrow>
             (case map_of ms k of
                Some nickname \<Rightarrow> if nickname \<noteq> [] then nickname else fallback
              | None \<Rightarrow> fallback))"

text \<open>
  The nickname that replaces the sender of the body: the non-empty one stored under the
  key the member id names, if any. With it, the sender of the body is never converted.
\<close>

definition stored_nickname :: "members_obj \<Rightarrow> string option \<Rightarrow> string option" where
  "stored_nickname ms member =
     (case member of
        None \<Rightarrow> None
      | Some k \<Rightarrow>
          (case map_of ms k of
             Some nickname \<Rightarrow> if nickname \<noteq> [] then Some nickname else None
           | None \<Rightarrow> None))"

text \<open>The answer of a leave.\<close>

definition left_response :: response where
  "left_response = (200, JObj [(''status'', JStr ''left'')])"

text \<open>Every stored message has a positive timestamp.\<close>

definition after_epoch :: "room_storage \<Rightarrow> bool" where
  "after_epoch st =
     (case st of None \<Rightarrow> True | Some room \<Rightarrow> list_all (\<lambda>m. 0 < timestamp m) (messages room))"


subsection \<open>A room and its requests, for the instances\<close>

text \<open>A room created at time 0, with its creator as the only member and no messages.\<close>

definition demo_room :: RoomData where
  "demo_room = \<lparr> room_hash = ''0123456789abcdef'', mode = Fixed, created_at = 0,
              expires_at = 3600, members = [(''aaaaaaaa'', ''creator'')], messages = [] \<rparr>"

text \<open>
  A runtime whose clock reads \<open>t\<close> at every call and whose random numbers are all 0, so
  that every id is a run of the letter a.
\<close>

definition demo_rt :: "real \<Rightarrow> runtime" where
  "demo_rt t = \<lparr> now_at = (\<lambda>i. t), random_at = (\<lambda>i. 0), number_text = (\<lambda>n. []) \<rparr>"

text \<open>The message such a runtime builds at time \<open>t\<close> for the content \<^verbatim>\<open>hi\<close> of no sender.\<close>

definition demo_msg :: "real \<Rightarrow> Message" where
  "demo_msg t = \<lparr> msg_id = ''aaaaaaaaaaaa'', sender = ''anon'', content = ''hi'', timestamp = t \<rparr>"

text \<open>A room is created at time 1 and receives two messages, at times 2 and 3.\<close>

definition demo_requests :: "(runtime \<times> Request) list" where
  "demo_requests =
     [(demo_rt 1, post_request ''/room/0123456789abcdef/create''
                 (JObj [(''room_hash'', JStr ''0123456789abcdef'')])),
      (demo_rt 2, post_request ''/room/0123456789abcdef/send'' (JObj [(''content'', JStr ''one'')])),
      (demo_rt 3, post_request ''/room/0123456789abcdef/send'' (JObj [(''content'', JStr ''two'')]))]"

text \<open>The room these requests leave.\<close>

definition demo_chat :: RoomData where
  "demo_chat = \<lparr> room_hash = ''0123456789abcdef'', mode = Fixed, created_at = 1,
              expires_at = 3601, members = [(''aaaaaaaa'', ''creator'')],
              messages = [\<lparr> msg_id = ''aaaaaaaaaaaa'', sender = ''anon'', content = ''one'',
                             timestamp = 2 \<rparr>,
                          \<lparr> msg_id = ''aaaaaaaaaaaa'', sender = ''anon'', content = ''two'',
                             timestamp = 3 \<rparr>] \<rparr>"






section \<open>The room entity: bound, expiry, poll, leave, send, frame\<close>

lemma getRoom_absent: "getRoom now None = (None, None)"
  by (simp add: getRoom_def)

lemma getRoom_expired: "expires_at room < now \<Longrightarrow> getRoom now (Some room) = (None, None)"
  by (simp add: getRoom_def)

lemma getRoom_live: "now \<le> expires_at room \<Longrightarrow> getRoom now (Some room) = (Some room, Some room)"
  by (simp add: getRoom_def)

lemma length_push_trim: "length (push_trim msgs msg) \<le> MAX_MESSAGES"
  by (simp add: push_trim_def Let_def MAX_MESSAGES_def)

lemma push_trim_drop:
  "push_trim msgs msg = drop (length msgs + 1 - 500) (msgs @ [msg])"
  by (simp add: push_trim_def Let_def MAX_MESSAGES_def)

lemma getRoom_cases:
  "getRoom now st = (None, None) \<or> (\<exists>room. st = Some room \<and> now \<le> expires_at room \<and> getRoom now st = (Some room, Some room))"
  by (cases st) (auto simp: getRoom_def)

lemma bounded_handleCreate: "bounded st \<Longrightarrow> bounded (snd (handleCreate rt h b st))"
  using getRoom_cases [of "now_at rt 0" st]
  by (auto simp: handleCreate_def bounded_def saveRoom_def Let_def)

lemma bounded_handleJoin: "bounded st \<Longrightarrow> bounded (snd (handleJoin rt h b st))"
  using getRoom_cases [of "now_at rt 0" st]
  by (auto simp: handleJoin_def bounded_def saveRoom_def Let_def split: sum.splits)

lemma bounded_handleSend: "bounded st \<Longrightarrow> bounded (snd (handleSend rt h b st))"
  using getRoom_cases [of "now_at rt 0" st]
  by (auto simp: handleSend_def bounded_def saveRoom_def Let_def length_push_trim split: sum.splits)

lemma bounded_handlePoll: "bounded st \<Longrightarrow> bounded (snd (handlePoll rt h q st))"
  using getRoom_cases [of "now_at rt 0" st]
  by (auto simp: handlePoll_def bounded_def Let_def)

lemma bounded_handleLeave: "bounded st \<Longrightarrow> bounded (snd (handleLeave rt h b st))"
  using getRoom_cases [of "now_at rt 0" st]
  by (auto simp: handleLeave_def bounded_def saveRoom_def Let_def split: sum.splits jsval.splits)

lemma bounded_handleInfo: "bounded st \<Longrightarrow> bounded (snd (handleInfo rt h st))"
  using getRoom_cases [of "now_at rt 0" st]
  by (auto simp: handleInfo_def bounded_def Let_def)

lemma bounded_fetch: "bounded st \<Longrightarrow> bounded (snd (SOSRoom_fetch rt request st))"
  by (simp add: SOSRoom_fetch_def Let_def bounded_handleCreate bounded_handleJoin
      bounded_handleSend bounded_handlePoll bounded_handleLeave bounded_handleInfo)

lemma bounded_run: "bounded st \<Longrightarrow> bounded (room_run reqs st)"
  by (induction reqs arbitrary: st) (auto simp: bounded_fetch)

lemma accepts_messages [simp]:
  "accepts h (room \<lparr> messages := ms \<rparr>) send msg = accepts h room send msg"
  by (simp add: accepts_def split: prod.splits)

lemma handleSend_accepts:
  "accepts h room (rt, body) msg \<Longrightarrow>
   handleSend rt h body (Some room) =
     (Inr (jsonResponse (JObj [(''id'', JStr (msg_id msg)), (''timestamp'', JNum (timestamp msg))]) 200),
      Some (room \<lparr> messages := push_trim (messages room) msg \<rparr>))"
  by (simp add: accepts_def handleSend_def getRoom_live saveRoom_def Let_def)

lemma push_trim_append:
  assumes "length ms \<le> 500"
  shows "drop (length (push_trim ms m @ rest) - 500) (push_trim ms m @ rest)
         = drop (length (ms @ m # rest) - 500) (ms @ m # rest)"
proof (cases "length ms = 500")
  case True
  then have "push_trim ms m = drop 1 (ms @ [m])"
    by (simp add: push_trim_drop)
  then have "push_trim ms m @ rest = drop 1 (ms @ m # rest)"
    using True by simp
  then show ?thesis
    using True by (simp del: drop_append)
next
  case False
  with assms have "push_trim ms m = ms @ [m]"
    by (simp add: push_trim_drop)
  then show ?thesis by simp
qed

lemma send_each_accepts:
  "list_all2 (accepts h room) sends msgs \<Longrightarrow> length ms \<le> 500 \<Longrightarrow>
   send_each sends h (Some (room \<lparr> messages := ms \<rparr>)) =
     Some (room \<lparr> messages := drop (length (ms @ msgs) - 500) (ms @ msgs) \<rparr>)"
proof (induction sends msgs arbitrary: ms rule: list_all2_induct)
  case Nil
  then show ?case by simp
next
  case (Cons send sends msg msgs)
  obtain rt body where send: "send = (rt, body)" by (cases send)
  have acc: "accepts h (room \<lparr> messages := ms \<rparr>) (rt, body) msg"
    using Cons.hyps(1) send by simp
  have len: "length (push_trim ms msg) \<le> 500"
    using length_push_trim [of ms msg] by (simp add: MAX_MESSAGES_def)
  show ?case
    using Cons.IH [OF len] push_trim_append [OF Cons.prems, of msg msgs]
    by (simp add: send handleSend_accepts [OF acc])
qed

lemma send_each_501:
  assumes "messages room = []" and "length sends = 501"
    and "list_all2 (accepts h room) sends msgs"
  shows "send_each sends h (Some room) = Some (room \<lparr> messages := drop 1 msgs \<rparr>)"
proof -
  have len: "length msgs = 501"
    using assms(2,3) by (simp add: list_all2_lengthD [symmetric])
  have "room \<lparr> messages := [] \<rparr> = room"
    using assms(1) by simp
  with send_each_accepts [OF assms(3), of "[]"] len show ?thesis
    by simp
qed

text \<open>
  C1. The stored message list never exceeds 500 entries: this holds of the storage after
  any sequence of requests to the entity, and each of create, join, send and leave keeps
  it. A send that is accepted stores the old list with the new message appended, cut to
  its last 500 entries: the oldest go first and the order of the rest is unchanged. 501
  accepted sends to a room without messages leave the last 500 of them in their order;
  the first is dropped (and is not among them, when the 501 messages differ).
\<close>

theorem message_bound:
  "bounded (room_run reqs None)
   \<and> (bounded st \<longrightarrow>
        bounded (snd (handleCreate rt h body st)) \<and> bounded (snd (handleJoin rt h body st))
        \<and> bounded (snd (handleSend rt h body st)) \<and> bounded (snd (handleLeave rt h body st)))
   \<and> (accepts h room (rt, body) msg \<longrightarrow>
        snd (handleSend rt h body (Some room)) =
          Some (room \<lparr> messages :=
                  drop (length (messages room) + 1 - 500) (messages room @ [msg]) \<rparr>))
   \<and> (messages room = [] \<and> length sends = 501 \<and> list_all2 (accepts h room) sends msgs \<longrightarrow>
        send_each sends h (Some room) = Some (room \<lparr> messages := drop 1 msgs \<rparr>)
        \<and> length (drop 1 msgs) = 500
        \<and> (distinct msgs \<longrightarrow> hd msgs \<notin> set (drop 1 msgs)))"
proof -
  have reach: "bounded (room_run reqs None)"
    by (rule bounded_run) (simp add: bounded_def)
  have step: "accepts h room (rt, body) msg \<longrightarrow>
        snd (handleSend rt h body (Some room)) =
          Some (room \<lparr> messages :=
                  drop (length (messages room) + 1 - 500) (messages room @ [msg]) \<rparr>)"
    by (simp add: handleSend_accepts push_trim_drop)
  have many: "send_each sends h (Some room) = Some (room \<lparr> messages := drop 1 msgs \<rparr>)
        \<and> length (drop 1 msgs) = 500
        \<and> (distinct msgs \<longrightarrow> hd msgs \<notin> set (drop 1 msgs))"
    if a: "messages room = []" "length sends = 501" "list_all2 (accepts h room) sends msgs"
  proof -
    have len: "length msgs = 501"
      using a(2,3) by (simp add: list_all2_lengthD [symmetric])
    then obtain m rest where msgs: "msgs = m # rest"
      by (cases msgs) auto
    show ?thesis
      using send_each_501 [OF a] len by (simp add: msgs)
  qed
  show ?thesis
    using reach step many
    by (simp add: bounded_handleCreate bounded_handleJoin bounded_handleSend bounded_handleLeave)
qed

lemma pick_0: "pick 0 = ''a''"
  by (simp add: pick_def alphabet_def)

lemma randomId_demo_12: "randomId (demo_rt t) 12 = ''aaaaaaaaaaaa''"
  by (simp add: randomId_def demo_rt_def pick_0 upt_rec [of _ "numeral _"] upt_rec [of _ "Suc _"])

lemma demo_accepts:
  "t \<le> 3600 \<Longrightarrow>
   accepts ''0123456789abcdef'' demo_room (demo_rt t, Some (JObj [(''content'', JStr ''hi'')])) (demo_msg t)"
  by (simp add: accepts_def demo_room_def readJson_def new_message_def resolve_sender_def
      or_else_def randomId_demo_12 demo_msg_def) (simp add: demo_rt_def)

theorem message_bound_witness:
  "send_each (map (\<lambda>i. (demo_rt (real i), Some (JObj [(''content'', JStr ''hi'')]))) [0..<501])
     ''0123456789abcdef'' (Some demo_room)
     = Some (demo_room \<lparr> messages := map (\<lambda>i. demo_msg (real i)) [1..<501] \<rparr>)
   \<and> length (map (\<lambda>i. demo_msg (real i)) [1..<501]) = 500
   \<and> demo_msg 0 \<notin> set (map (\<lambda>i. demo_msg (real i)) [1..<501])
   \<and> snd (handleSend (demo_rt 0) ''0123456789abcdef'' (Some (JObj [(''content'', JStr ''hi'')])) (Some demo_room))
       = Some (demo_room \<lparr> messages := [demo_msg 0] \<rparr>)
   \<and> bounded (snd (handleSend (demo_rt 0) ''0123456789abcdef'' (Some (JObj [(''content'', JStr ''hi'')])) (Some demo_room)))"
proof -
  let ?body = "Some (JObj [(''content'', JStr ''hi'')])"
  let ?sends = "map (\<lambda>i. (demo_rt (real i), ?body)) [0..<501]"
  let ?msgs = "map (\<lambda>i. demo_msg (real i)) [0..<501]"
  have empty: "messages demo_room = []"
    by (simp add: demo_room_def)
  have len: "length ?sends = 501"
    by simp
  have all: "list_all2 (accepts ''0123456789abcdef'' demo_room) ?sends ?msgs"
    by (simp add: list_all2_map1 list_all2_map2 list_all2_same demo_accepts)
  have dist: "distinct ?msgs"
    by (simp add: distinct_map inj_on_def demo_msg_def)
  have b: "bounded (Some demo_room)"
    by (simp add: bounded_def demo_room_def)
  have one: "accepts ''0123456789abcdef'' demo_room (demo_rt 0, ?body) (demo_msg 0)"
    by (simp add: demo_accepts)
  have tl: "drop 1 ?msgs = map (\<lambda>i. demo_msg (real i)) [1..<501]"
    by (simp add: drop_map)
  have hd: "hd ?msgs = demo_msg 0"
    by (simp add: upt_rec [of 0 501])
  from message_bound [of "[]" "Some demo_room" "demo_rt 0" "''0123456789abcdef''" ?body demo_room "demo_msg 0" ?sends ?msgs]
    empty len all dist b one
  show ?thesis
    unfolding tl hd by (simp add: empty bounded_def MAX_MESSAGES_def)
qed

lemma absent_handlers:
  "handleJoin rt h body None = (Inr room_not_found, None)"
  "handleSend rt h body None = (Inr room_not_found, None)"
  "handlePoll rt h q None = (Inr room_not_found, None)"
  "handleLeave rt h body None = (Inr room_not_found, None)"
  "handleInfo rt h None = (Inr room_not_found, None)"
  by (simp_all add: handleJoin_def handleSend_def handlePoll_def handleLeave_def handleInfo_def
      getRoom_absent)

lemma expired_handlers:
  assumes "expires_at room < now_at rt 0"
  shows "handleJoin rt h body (Some room) = (Inr room_not_found, None)"
    "handleSend rt h body (Some room) = (Inr room_not_found, None)"
    "handlePoll rt h q (Some room) = (Inr room_not_found, None)"
    "handleLeave rt h body (Some room) = (Inr room_not_found, None)"
    "handleInfo rt h (Some room) = (Inr room_not_found, None)"
  using assms
  by (simp_all add: handleJoin_def handleSend_def handlePoll_def handleLeave_def handleInfo_def
      getRoom_expired)

lemma fetch_absent:
  "snd (SOSRoom_fetch rt request None) \<noteq> None \<Longrightarrow>
   req_method request = ''POST'' \<and>
   (\<exists>roomHash. SOSRoom_fetch rt request None = handleCreate rt roomHash (req_body request) None)"
  by (auto simp: SOSRoom_fetch_def Let_def absent_handlers split: if_splits)

text \<open>
  C2. When the clock read in \<^verbatim>\<open>getRoom\<close> is past \<open>expires_at\<close>, each of join, send,
  poll, leave and info answers \<^verbatim>\<open>room_not_found\<close> with status 404 and leaves the storage
  empty, exactly as it does on a storage that never held a room. On the empty storage
  the only request whose handling leaves a room is a \<^verbatim>\<open>POST\<close> that dispatches to
  \<^verbatim>\<open>handleCreate\<close>.
\<close>

theorem expired_room_is_absent:
  "expires_at room < now_at rt 0 \<Longrightarrow>
     handleJoin rt h body (Some room) = (Inr (404, JObj [(''error'', JStr ''room_not_found'')]), None)
   \<and> handleSend rt h body (Some room) = (Inr (404, JObj [(''error'', JStr ''room_not_found'')]), None)
   \<and> handlePoll rt h q (Some room) = (Inr (404, JObj [(''error'', JStr ''room_not_found'')]), None)
   \<and> handleLeave rt h body (Some room) = (Inr (404, JObj [(''error'', JStr ''room_not_found'')]), None)
   \<and> handleInfo rt h (Some room) = (Inr (404, JObj [(''error'', JStr ''room_not_found'')]), None)
   \<and> handleJoin rt h body (Some room) = handleJoin rt h body None
   \<and> handleSend rt h body (Some room) = handleSend rt h body None
   \<and> handlePoll rt h q (Some room) = handlePoll rt h q None
   \<and> handleLeave rt h body (Some room) = handleLeave rt h body None
   \<and> handleInfo rt h (Some room) = handleInfo rt h None
   \<and> (snd (SOSRoom_fetch rt' request None) \<noteq> None \<longrightarrow>
        req_method request = ''POST'' \<and>
        (\<exists>roomHash. SOSRoom_fetch rt' request None
                       = handleCreate rt' roomHash (req_body request) None))"
  using fetch_absent [of rt' request]
  by (simp add: expired_handlers absent_handlers room_not_found_def jsonResponse_def error_body_def)

lemma demo_create_parts:
  "path_parts ''/room/0123456789abcdef/create'' = [''room'', ''0123456789abcdef'', ''create'']"
  by (simp add: path_parts_def)

lemma demo_create:
  "snd (SOSRoom_fetch (demo_rt 0)
          (post_request ''/room/0123456789abcdef/create''
             (JObj [(''room_hash'', JStr ''0123456789abcdef'')])) None) \<noteq> None"
  by (simp add: SOSRoom_fetch_def post_request_def demo_create_parts handleCreate_def getRoom_absent
      readJson_def saveRoom_def Let_def)

theorem expired_room_is_absent_witness:
  "handleJoin (demo_rt 3601) ''0123456789abcdef'' None (Some demo_room)
     = (Inr (404, JObj [(''error'', JStr ''room_not_found'')]), None)
   \<and> handleInfo (demo_rt 3601) ''0123456789abcdef'' (Some demo_room)
     = (Inr (404, JObj [(''error'', JStr ''room_not_found'')]), None)
   \<and> handlePoll (demo_rt 3601) ''0123456789abcdef'' None (Some demo_room)
     = handlePoll (demo_rt 3601) ''0123456789abcdef'' None None
   \<and> (\<exists>roomHash.
        SOSRoom_fetch (demo_rt 0)
          (post_request ''/room/0123456789abcdef/create''
             (JObj [(''room_hash'', JStr ''0123456789abcdef'')])) None
        = handleCreate (demo_rt 0) roomHash
            (Some (JObj [(''room_hash'', JStr ''0123456789abcdef'')])) None)"
proof -
  have "expires_at demo_room < now_at (demo_rt 3601) 0"
    by (simp add: demo_room_def demo_rt_def)
  from expired_room_is_absent [OF this, where h = "''0123456789abcdef''" and body = None
      and q = None and rt' = "demo_rt 0"
      and request = "post_request ''/room/0123456789abcdef/create''
             (JObj [(''room_hash'', JStr ''0123456789abcdef'')])"] demo_create
  show ?thesis
    by (simp add: post_request_def absent_handlers room_not_found_def jsonResponse_def
        error_body_def)
qed

text \<open>
  C10. On a room that has not expired, each of join, send, leave, poll and info leaves a
  room stored whose \<open>room_hash\<close>, \<open>mode\<close>, \<open>created_at\<close> and \<open>expires_at\<close> are the ones it
  found: the deadline is neither extended nor shortened.
\<close>

theorem live_room_keeps_frame:
  "now_at rt 0 \<le> expires_at room \<Longrightarrow>
     same_frame room (snd (handleJoin rt h body (Some room)))
   \<and> same_frame room (snd (handleSend rt h body (Some room)))
   \<and> same_frame room (snd (handleLeave rt h body (Some room)))
   \<and> same_frame room (snd (handlePoll rt h q (Some room)))
   \<and> same_frame room (snd (handleInfo rt h (Some room)))"
  by (auto simp: handleJoin_def handleSend_def handlePoll_def handleLeave_def handleInfo_def
      getRoom_live same_frame_def saveRoom_def Let_def split: sum.splits jsval.splits)

theorem live_room_keeps_frame_witness:
  "same_frame demo_room (snd (handleJoin (demo_rt 5) ''0123456789abcdef'' None (Some demo_room)))
   \<and> snd (handleJoin (demo_rt 5) ''0123456789abcdef'' None (Some demo_room)) \<noteq> Some demo_room"
proof -
  have live: "now_at (demo_rt 5) 0 \<le> expires_at demo_room"
    by (simp add: demo_room_def demo_rt_def)
  have "members (the (snd (handleJoin (demo_rt 5) ''0123456789abcdef'' None (Some demo_room))))
        \<noteq> members demo_room"
    by (simp add: handleJoin_def getRoom_live [OF live] readJson_def or_else_def saveRoom_def
        Let_def)
       (simp add: demo_room_def obj_set_def)
  then have "snd (handleJoin (demo_rt 5) ''0123456789abcdef'' None (Some demo_room)) \<noteq> Some demo_room"
    by auto
  with live_room_keeps_frame [OF live] show ?thesis
    by simp
qed

lemma obj_delete_absent: "map_of ms k = None \<Longrightarrow> obj_delete ms k = ms"
  by (induction ms) (auto simp: obj_delete_def split: if_splits)

lemma map_of_obj_delete: "map_of (obj_delete ms k) k = None"
  by (induction ms) (auto simp: obj_delete_def)

lemma leave_live:
  assumes "now_at rt 0 \<le> expires_at room" "room_hash room = h"
  shows "handleLeave rt h body (Some room) =
     (case key_of (number_text rt) (js_prop (readJson body) ''member_id'') of
        Inl e \<Rightarrow> (Inl e, Some room)
      | Inr None \<Rightarrow> (Inr left_response, Some room)
      | Inr (Some k) \<Rightarrow>
          if truthy_val (obj_get (members room) k)
          then (Inr left_response, Some (room \<lparr> members := obj_delete (members room) k \<rparr>))
          else (Inr left_response, Some room))"
  using assms
  by (simp add: handleLeave_def getRoom_live left_response_def jsonResponse_def saveRoom_def
      Let_def key_of_def split: jsval.splits sum.splits)

lemma leave_unknown:
  assumes live: "now_at rt 0 \<le> expires_at room" "room_hash room = h"
    and key: "key_of (number_text rt) (js_prop (readJson body) ''member_id'') = Inr member"
    and unknown: "\<And>k. member = Some k \<Longrightarrow> map_of (members room) k = None"
  shows "handleLeave rt h body (Some room) = (Inr left_response, Some room)"
  using key unknown
  by (cases member) (auto simp: leave_live [OF live] obj_delete_absent)

lemma leave_again:
  assumes live: "now_at rt 0 \<le> expires_at room" "room_hash room = h"
    and live2: "now_at rt2 0 \<le> expires_at room" "number_text rt2 = number_text rt"
    and key: "key_of (number_text rt) (js_prop (readJson body) ''member_id'') = Inr member"
  shows "fst (handleLeave rt h body (Some room)) = Inr left_response
     \<and> handleLeave rt2 h body (snd (handleLeave rt h body (Some room)))
         = (Inr left_response, snd (handleLeave rt h body (Some room)))"
proof (cases member)
  case None
  with key live2 show ?thesis
    by (simp add: leave_live [OF live] leave_live [OF live2(1) live(2)])
next
  case (Some k)
  let ?room1 = "room \<lparr> members := obj_delete (members room) k \<rparr>"
  have live1: "now_at rt2 0 \<le> expires_at ?room1" "room_hash ?room1 = h"
    using live2 live by simp_all
  have again: "obj_delete (obj_delete (members room) k) k = obj_delete (members room) k"
    by (simp add: obj_delete_absent map_of_obj_delete)
  show ?thesis
  proof (cases "truthy_val (obj_get (members room) k)")
    case False
    with Some key live2 show ?thesis
      by (simp add: leave_live [OF live] leave_live [OF live2(1) live(2)])
  next
    case True
    with Some key live2 show ?thesis
      by (simp add: leave_live [OF live] leave_live [OF live1] again)
  qed
qed

text \<open>
  C7, amended. In a live room, take a leave whose \<^verbatim>\<open>member_id\<close> names \<open>member\<close>: no key when
  it is absent or false in the language's sense, else the key its conversion to a string
  gives, for a \<^verbatim>\<open>member_id\<close> that has such a conversion.
  When \<open>member\<close> is no key or a key that is not a member, the leave answers
  \<open>{status: left}\<close> with status 200 and leaves the stored room as it is, and so does the
  same leave after it. Whatever \<open>member\<close> is, the leave answers \<open>{status: left}\<close>, and the
  same leave after it answers \<open>{status: left}\<close> and changes nothing more: leaving with an
  id that was removed is no error.
\<close>

theorem leave_is_idempotent:
  assumes "now_at rt 0 \<le> expires_at room" and "room_hash room = h"
    and "now_at rt2 0 \<le> expires_at room" and "number_text rt2 = number_text rt"
    and "key_of (number_text rt) (js_prop (readJson body) ''member_id'') = Inr member"
  shows
    "((\<forall>k. member = Some k \<longrightarrow> map_of (members room) k = None)
      \<longrightarrow> handleLeave rt h body (Some room)
            = (Inr (200, JObj [(''status'', JStr ''left'')]), Some room)
          \<and> handleLeave rt2 h body (snd (handleLeave rt h body (Some room)))
            = (Inr (200, JObj [(''status'', JStr ''left'')]), Some room))
     \<and> fst (handleLeave rt h body (Some room)) = Inr (200, JObj [(''status'', JStr ''left'')])
     \<and> handleLeave rt2 h body (snd (handleLeave rt h body (Some room)))
           = (Inr (200, JObj [(''status'', JStr ''left'')]), snd (handleLeave rt h body (Some room)))"
proof -
  have first: "handleLeave rt h body (Some room) = (Inr left_response, Some room)"
    if "\<forall>k. member = Some k \<longrightarrow> map_of (members room) k = None"
    using leave_unknown [OF assms(1,2,5)] that by blast
  have second: "handleLeave rt2 h body (Some room) = (Inr left_response, Some room)"
    if "\<forall>k. member = Some k \<longrightarrow> map_of (members room) k = None"
    using leave_unknown [OF assms(3,2), of body member] assms(4,5) that by simp
  show ?thesis
    using first second leave_again [OF assms]
    by (simp add: left_response_def)
qed

theorem leave_is_idempotent_witness:
  "handleLeave (demo_rt 5) ''0123456789abcdef'' (Some (JObj [(''member_id'', JStr ''zzzzzzzz'')]))
     (Some demo_room) = (Inr (200, JObj [(''status'', JStr ''left'')]), Some demo_room)
   \<and> handleLeave (demo_rt 6) ''0123456789abcdef'' (Some (JObj [(''member_id'', JStr ''zzzzzzzz'')]))
     (snd (handleLeave (demo_rt 5) ''0123456789abcdef''
            (Some (JObj [(''member_id'', JStr ''zzzzzzzz'')])) (Some demo_room)))
       = (Inr (200, JObj [(''status'', JStr ''left'')]), Some demo_room)
   \<and> handleLeave (demo_rt 5) ''0123456789abcdef'' (Some (JObj [(''member_id'', JStr ''aaaaaaaa'')]))
     (Some demo_room)
       = (Inr (200, JObj [(''status'', JStr ''left'')]), Some (demo_room \<lparr> members := [] \<rparr>))
   \<and> handleLeave (demo_rt 6) ''0123456789abcdef'' (Some (JObj [(''member_id'', JStr ''aaaaaaaa'')]))
     (Some (demo_room \<lparr> members := [] \<rparr>))
       = (Inr (200, JObj [(''status'', JStr ''left'')]), Some (demo_room \<lparr> members := [] \<rparr>))"
proof -
  let ?h = "''0123456789abcdef''"
  let ?z = "Some (JObj [(''member_id'', JStr ''zzzzzzzz'')])"
  let ?a = "Some (JObj [(''member_id'', JStr ''aaaaaaaa'')])"
  let ?left = "(200 :: nat, JObj [(''status'', JStr ''left'')])"
  have live: "now_at (demo_rt 5) 0 \<le> expires_at demo_room" "room_hash demo_room = ?h"
    "now_at (demo_rt 6) 0 \<le> expires_at demo_room" "number_text (demo_rt 6) = number_text (demo_rt 5)"
    by (simp_all add: demo_room_def demo_rt_def)
  have key_z: "key_of (number_text (demo_rt 5)) (js_prop (readJson ?z) ''member_id'')
      = Inr (Some ''zzzzzzzz'')"
    and key_a: "key_of (number_text (demo_rt 5)) (js_prop (readJson ?a) ''member_id'')
      = Inr (Some ''aaaaaaaa'')"
    by (simp_all add: key_of_def readJson_def)
  have unknown: "\<forall>k. Some ''zzzzzzzz'' = Some k \<longrightarrow> map_of (members demo_room) k = None"
    by (simp add: demo_room_def)
  have removed: "snd (handleLeave (demo_rt 5) ?h ?a (Some demo_room))
      = Some (demo_room \<lparr> members := [] \<rparr>)"
    by (simp add: leave_live [OF live(1,2)] key_a)
       (simp add: demo_room_def obj_get_def obj_delete_def)
  have z: "handleLeave (demo_rt 5) ?h ?z (Some demo_room) = (Inr ?left, Some demo_room)"
    "handleLeave (demo_rt 6) ?h ?z (snd (handleLeave (demo_rt 5) ?h ?z (Some demo_room)))
       = (Inr ?left, Some demo_room)"
    using leave_is_idempotent [OF live key_z] unknown by blast+
  have a: "fst (handleLeave (demo_rt 5) ?h ?a (Some demo_room)) = Inr ?left"
    "handleLeave (demo_rt 6) ?h ?a (snd (handleLeave (demo_rt 5) ?h ?a (Some demo_room)))
       = (Inr ?left, snd (handleLeave (demo_rt 5) ?h ?a (Some demo_room)))"
    using leave_is_idempotent [OF live key_a] by blast+
  from a(1) removed
  have a1: "handleLeave (demo_rt 5) ?h ?a (Some demo_room)
      = (Inr ?left, Some (demo_room \<lparr> members := [] \<rparr>))"
    by (simp add: prod_eq_iff)
  from a(2)
  have a2: "handleLeave (demo_rt 6) ?h ?a (Some (demo_room \<lparr> members := [] \<rparr>))
      = (Inr ?left, Some (demo_room \<lparr> members := [] \<rparr>))"
    unfolding removed .
  show ?thesis
    using z a1 a2 by simp
qed

text \<open>
  C7 as stated fails. A \<^verbatim>\<open>member_id\<close> that is an object with a \<^verbatim>\<open>toString\<close> field of its own
  has no conversion to a property key: in a live room
  the lookup \<^verbatim>\<open>room.members[memberId]\<close> throws a TypeError, so the leave errors instead of
  answering \<open>{status: left}\<close>, the first time and the second. An array holding such an
  object fails the same way.
\<close>

theorem leave_member_id_throws_counterexample:
  "handleLeave (demo_rt 5) ''0123456789abcdef''
     (Some (JObj [(''member_id'', JObj [(''toString'', JNum 1)])])) (Some demo_room)
     = (Inl TypeError, Some demo_room)
   \<and> handleLeave (demo_rt 6) ''0123456789abcdef''
     (Some (JObj [(''member_id'', JObj [(''toString'', JNum 1)])]))
     (snd (handleLeave (demo_rt 5) ''0123456789abcdef''
            (Some (JObj [(''member_id'', JObj [(''toString'', JNum 1)])])) (Some demo_room)))
     = (Inl TypeError, Some demo_room)
   \<and> fst (handleLeave (demo_rt 5) ''0123456789abcdef''
     (Some (JObj [(''member_id'', JArr [JObj [(''toString'', JNum 1)]])])) (Some demo_room))
     = Inl TypeError
   \<and> now_at (demo_rt 5) 0 \<le> expires_at demo_room
   \<and> now_at (demo_rt 6) 0 \<le> expires_at demo_room
   \<and> room_hash demo_room = ''0123456789abcdef''"
proof -
  let ?h = "''0123456789abcdef''"
  let ?obj = "Some (JObj [(''member_id'', JObj [(''toString'', JNum 1)])])"
  let ?arr = "Some (JObj [(''member_id'', JArr [JObj [(''toString'', JNum 1)]])])"
  have live: "now_at (demo_rt 5) 0 \<le> expires_at demo_room" "room_hash demo_room = ?h"
    and live2: "now_at (demo_rt 6) 0 \<le> expires_at demo_room"
    by (simp_all add: demo_room_def demo_rt_def)
  have key_obj: "key_of ns (js_prop (readJson ?obj) ''member_id'') = Inl TypeError"
    and key_arr: "key_of ns (js_prop (readJson ?arr) ''member_id'') = Inl TypeError" for ns
    by (simp_all add: key_of_def readJson_def)
  have first: "handleLeave (demo_rt 5) ?h ?obj (Some demo_room) = (Inl TypeError, Some demo_room)"
    by (simp add: leave_live [OF live] key_obj)
  have second: "handleLeave (demo_rt 6) ?h ?obj (Some demo_room) = (Inl TypeError, Some demo_room)"
    by (simp add: leave_live [OF live2 live(2)] key_obj)
  have array: "fst (handleLeave (demo_rt 5) ?h ?arr (Some demo_room)) = Inl TypeError"
    by (simp add: leave_live [OF live] key_arr)
  show ?thesis
    using first second array live live2 by simp
qed

lemma send_live:
  assumes "now_at rt 0 \<le> expires_at room" "room_hash room = h"
  shows "handleSend rt h body (Some room) =
     (if \<not> truthy (readJson body) \<or> \<not> truthy_val (js_prop (readJson body) ''content'')
      then (Inr (400, JObj [(''error'', JStr ''missing_content'')]), Some room)
      else (case new_message rt (members room) (readJson body) of
              Inl e \<Rightarrow> (Inl e, Some room)
            | Inr msg \<Rightarrow>
                (Inr (200, JObj [(''id'', JStr (msg_id msg)), (''timestamp'', JNum (timestamp msg))]),
                 Some (room \<lparr> messages := push_trim (messages room) msg \<rparr>))))"
  using assms
  by (simp add: handleSend_def getRoom_live jsonResponse_def error_body_def saveRoom_def Let_def
      split: sum.splits)

lemma resolve_sender_text:
  assumes "stored_nickname ms member = None \<Longrightarrow>
           text_of ns (js_prop data ''sender'') = Inr supplied"
    and "key_of ns (js_prop data ''member_id'') = Inr member"
    and "\<And>k. member = Some k \<Longrightarrow> map_of ms k = None \<Longrightarrow> k \<notin> set object_prototype_keys"
  shows "\<exists>v. resolve_sender ns ms data = Inr v \<and> toString ns v = Inr (sender_for ms member supplied)"
proof -
  let ?sender0 = "or_else (js_prop data ''sender'') (Json (JStr ''anon''))"
  have fallback: "toString ns ?sender0 = Inr (case supplied of Some s \<Rightarrow> s | None \<Rightarrow> ''anon'')"
    if "stored_nickname ms member = None"
    using assms(1) [OF that] by (auto simp: text_of_def or_else_def split: if_splits sum.splits)
  show ?thesis
  proof (cases member)
    case None
    then have r: "resolve_sender ns ms data = Inr ?sender0"
      using assms(2)
      by (auto simp: key_of_def resolve_sender_def Let_def split: jsval.splits if_splits sum.splits)
    have "stored_nickname ms member = None"
      using None by (simp add: stored_nickname_def)
    from fallback [OF this] r None show ?thesis
      by (simp add: sender_for_def)
  next
    case (Some k)
    then obtain m where m: "js_prop data ''member_id'' = Json m" "truthy m" "ToString ns m = Inr k"
      using assms(2)
      by (auto simp: key_of_def split: jsval.splits if_splits sum.splits)
    show ?thesis
    proof (cases "map_of ms k")
      case None
      with Some assms(3) have "obj_get ms k = Undefined"
        by (simp add: obj_get_def)
      with m have r: "resolve_sender ns ms data = Inr ?sender0"
        by (simp add: resolve_sender_def Let_def)
      have "stored_nickname ms member = None"
        using None Some by (simp add: stored_nickname_def)
      from fallback [OF this] r None Some show ?thesis
        by (simp add: sender_for_def)
    next
      case (Some v)
      then have get: "obj_get ms k = Json (JStr v)"
        by (simp add: obj_get_def)
      show ?thesis
      proof (cases "v = []")
        case True
        with m get have r: "resolve_sender ns ms data = Inr ?sender0"
          by (simp add: resolve_sender_def Let_def)
        have "stored_nickname ms member = None"
          using True Some \<open>member = Some k\<close> by (simp add: stored_nickname_def)
        from fallback [OF this] r True Some \<open>member = Some k\<close> show ?thesis
          by (simp add: sender_for_def)
      next
        case False
        with m get have "resolve_sender ns ms data = Inr (Json (JStr v))"
          by (simp add: resolve_sender_def Let_def)
        with False Some \<open>member = Some k\<close> show ?thesis
          by (simp add: sender_for_def)
      qed
    qed
  qed
qed

text \<open>
  C8, amended. In a live room, send answers \<^verbatim>\<open>missing_content\<close> with status 400 exactly
  when the body or its \<^verbatim>\<open>content\<close> is false in the language's sense: absent, \<^verbatim>\<open>null\<close>,
  \<^verbatim>\<open>false\<close>, \<open>0\<close> or the empty string. For every other content, when no conversion of
  \<^verbatim>\<open>content\<close>, of \<^verbatim>\<open>member_id\<close> or of a \<^verbatim>\<open>sender\<close> that is used to a string throws and
  \<^verbatim>\<open>member_id\<close> names a member or no key of \<^verbatim>\<open>Object.prototype\<close>, send answers the new
  id and timestamp and appends the message, whose sender is the non-empty nickname stored
  under the key \<^verbatim>\<open>member_id\<close> names, else the \<^verbatim>\<open>sender\<close> of the body when that is true,
  else \<^verbatim>\<open>anon\<close>. The \<^verbatim>\<open>sender\<close> of the body is used when no such nickname is stored.
\<close>

theorem send_missing_content_and_sender:
  assumes "now_at rt 0 \<le> expires_at room" and "room_hash room = h"
  shows
    "(fst (handleSend rt h body (Some room)) = Inr (400, JObj [(''error'', JStr ''missing_content'')])
        \<longleftrightarrow> \<not> truthy (readJson body) \<or> \<not> truthy_val (js_prop (readJson body) ''content''))
     \<and> (truthy_val (js_prop (readJson body) ''content'')
          \<and> toString (number_text rt) (js_prop (readJson body) ''content'') = Inr text
          \<and> key_of (number_text rt) (js_prop (readJson body) ''member_id'') = Inr member
          \<and> (stored_nickname (members room) member = None
                \<longrightarrow> text_of (number_text rt) (js_prop (readJson body) ''sender'') = Inr supplied)
          \<and> (\<forall>k. member = Some k \<and> map_of (members room) k = None
                   \<longrightarrow> k \<notin> set object_prototype_keys)
        \<longrightarrow> handleSend rt h body (Some room) =
              (Inr (200, JObj [(''id'', JStr (randomId rt 12)), (''timestamp'', JNum (now_at rt 1))]),
               Some (room \<lparr> messages :=
                       push_trim (messages room)
                         \<lparr> msg_id = randomId rt 12,
                           sender = sender_for (members room) member supplied,
                           content = text, timestamp = now_at rt 1 \<rparr> \<rparr>)))"
proof -
  have iff: "fst (handleSend rt h body (Some room)) = Inr (400, JObj [(''error'', JStr ''missing_content'')])
        \<longleftrightarrow> \<not> truthy (readJson body) \<or> \<not> truthy_val (js_prop (readJson body) ''content'')"
    by (simp add: send_live [OF assms] split: sum.splits)
  have appended: "handleSend rt h body (Some room) =
              (Inr (200, JObj [(''id'', JStr (randomId rt 12)), (''timestamp'', JNum (now_at rt 1))]),
               Some (room \<lparr> messages :=
                       push_trim (messages room)
                         \<lparr> msg_id = randomId rt 12,
                           sender = sender_for (members room) member supplied,
                           content = text, timestamp = now_at rt 1 \<rparr> \<rparr>))"
    if c: "truthy_val (js_prop (readJson body) ''content'')"
      "toString (number_text rt) (js_prop (readJson body) ''content'') = Inr text"
      and s: "stored_nickname (members room) member = None
                \<longrightarrow> text_of (number_text rt) (js_prop (readJson body) ''sender'') = Inr supplied"
      and m: "key_of (number_text rt) (js_prop (readJson body) ''member_id'') = Inr member"
      and k: "\<forall>k. member = Some k \<and> map_of (members room) k = None
                   \<longrightarrow> k \<notin> set object_prototype_keys"
  proof -
    have data: "truthy (readJson body)"
      using c(1) by (cases "readJson body") simp_all
    obtain v where "resolve_sender (number_text rt) (members room) (readJson body) = Inr v"
      "toString (number_text rt) v = Inr (sender_for (members room) member supplied)"
      using resolve_sender_text [OF _ m, of "members room" supplied] s k by blast
    then have "new_message rt (members room) (readJson body)
          = Inr \<lparr> msg_id = randomId rt 12,
                  sender = sender_for (members room) member supplied,
                  content = text, timestamp = now_at rt 1 \<rparr>"
      using c(2) by (simp add: new_message_def)
    then show ?thesis
      using c(1) data by (simp add: send_live [OF assms])
  qed
  have step: "truthy_val (js_prop (readJson body) ''content'')
          \<and> toString (number_text rt) (js_prop (readJson body) ''content'') = Inr text
          \<and> key_of (number_text rt) (js_prop (readJson body) ''member_id'') = Inr member
          \<and> (stored_nickname (members room) member = None
                \<longrightarrow> text_of (number_text rt) (js_prop (readJson body) ''sender'') = Inr supplied)
          \<and> (\<forall>k. member = Some k \<and> map_of (members room) k = None
                   \<longrightarrow> k \<notin> set object_prototype_keys)
        \<longrightarrow> handleSend rt h body (Some room) =
              (Inr (200, JObj [(''id'', JStr (randomId rt 12)), (''timestamp'', JNum (now_at rt 1))]),
               Some (room \<lparr> messages :=
                       push_trim (messages room)
                         \<lparr> msg_id = randomId rt 12,
                           sender = sender_for (members room) member supplied,
                           content = text, timestamp = now_at rt 1 \<rparr> \<rparr>))"
  proof (intro impI, elim conjE)
    assume a: "truthy_val (js_prop (readJson body) ''content'')"
      "toString (number_text rt) (js_prop (readJson body) ''content'') = Inr text"
      "key_of (number_text rt) (js_prop (readJson body) ''member_id'') = Inr member"
      "stored_nickname (members room) member = None
         \<longrightarrow> text_of (number_text rt) (js_prop (readJson body) ''sender'') = Inr supplied"
      "\<forall>k. member = Some k \<and> map_of (members room) k = None
                   \<longrightarrow> k \<notin> set object_prototype_keys"
    show "handleSend rt h body (Some room) =
              (Inr (200, JObj [(''id'', JStr (randomId rt 12)), (''timestamp'', JNum (now_at rt 1))]),
               Some (room \<lparr> messages :=
                       push_trim (messages room)
                         \<lparr> msg_id = randomId rt 12,
                           sender = sender_for (members room) member supplied,
                           content = text, timestamp = now_at rt 1 \<rparr> \<rparr>))"
      by (rule appended [OF a(1) a(2) a(4) a(3) a(5)])
  qed
  show ?thesis
    using iff step by (rule conjI)
qed

lemma demo_rt_now: "now_at (demo_rt t) i = t"
  by (simp add: demo_rt_def)

theorem send_missing_content_and_sender_witness:
  "handleSend (demo_rt 5) ''0123456789abcdef''
     (Some (JObj [(''member_id'', JStr ''aaaaaaaa''), (''sender'', JStr ''bob''),
                  (''content'', JStr ''hi'')])) (Some demo_room)
   = (Inr (200, JObj [(''id'', JStr ''aaaaaaaaaaaa''), (''timestamp'', JNum 5)]),
      Some (demo_room \<lparr> messages := [\<lparr> msg_id = ''aaaaaaaaaaaa'', sender = ''creator'',
                                         content = ''hi'', timestamp = 5 \<rparr>] \<rparr>))
   \<and> handleSend (demo_rt 5) ''0123456789abcdef''
     (Some (JObj [(''member_id'', JStr ''zzzzzzzz''), (''sender'', JStr ''bob''),
                  (''content'', JStr ''hi'')])) (Some demo_room)
   = (Inr (200, JObj [(''id'', JStr ''aaaaaaaaaaaa''), (''timestamp'', JNum 5)]),
      Some (demo_room \<lparr> messages := [\<lparr> msg_id = ''aaaaaaaaaaaa'', sender = ''bob'',
                                         content = ''hi'', timestamp = 5 \<rparr>] \<rparr>))
   \<and> handleSend (demo_rt 5) ''0123456789abcdef'' (Some (JObj [(''content'', JStr ''hi'')]))
        (Some demo_room)
   = (Inr (200, JObj [(''id'', JStr ''aaaaaaaaaaaa''), (''timestamp'', JNum 5)]),
      Some (demo_room \<lparr> messages := [\<lparr> msg_id = ''aaaaaaaaaaaa'', sender = ''anon'',
                                         content = ''hi'', timestamp = 5 \<rparr>] \<rparr>))
   \<and> handleSend (demo_rt 5) ''0123456789abcdef''
     (Some (JObj [(''member_id'', JStr ''aaaaaaaa''), (''sender'', JObj [(''toString'', JNum 1)]),
                  (''content'', JStr ''hi'')])) (Some demo_room)
   = (Inr (200, JObj [(''id'', JStr ''aaaaaaaaaaaa''), (''timestamp'', JNum 5)]),
      Some (demo_room \<lparr> messages := [\<lparr> msg_id = ''aaaaaaaaaaaa'', sender = ''creator'',
                                         content = ''hi'', timestamp = 5 \<rparr>] \<rparr>))
   \<and> fst (handleSend (demo_rt 5) ''0123456789abcdef'' (Some (JObj [(''content'', JStr [])]))
          (Some demo_room)) = Inr (400, JObj [(''error'', JStr ''missing_content'')])"
proof -
  let ?h = "''0123456789abcdef''"
  let ?known = "Some (JObj [(''member_id'', JStr ''aaaaaaaa''), (''sender'', JStr ''bob''),
                  (''content'', JStr ''hi'')])"
  let ?unknown = "Some (JObj [(''member_id'', JStr ''zzzzzzzz''), (''sender'', JStr ''bob''),
                  (''content'', JStr ''hi'')])"
  let ?bare = "Some (JObj [(''content'', JStr ''hi'')])"
  let ?unused = "Some (JObj [(''member_id'', JStr ''aaaaaaaa''),
                  (''sender'', JObj [(''toString'', JNum 1)]), (''content'', JStr ''hi'')])"
  let ?empty = "Some (JObj [(''content'', JStr [])])"
  let ?sent = "\<lambda>who. (Inr (200 :: nat, JObj [(''id'', JStr ''aaaaaaaaaaaa''), (''timestamp'', JNum 5)]),
      Some (demo_room \<lparr> messages := [\<lparr> msg_id = ''aaaaaaaaaaaa'', sender = who,
                                         content = ''hi'', timestamp = 5 \<rparr>] \<rparr>))"
  have live: "now_at (demo_rt 5) 0 \<le> expires_at demo_room" "room_hash demo_room = ?h"
    by (simp_all add: demo_room_def demo_rt_def)
  have vals: "messages demo_room = []"
    "sender_for (members demo_room) (Some ''aaaaaaaa'') (Some ''bob'') = ''creator''"
    "sender_for (members demo_room) (Some ''zzzzzzzz'') (Some ''bob'') = ''bob''"
    "sender_for (members demo_room) None None = ''anon''"
    "sender_for (members demo_room) (Some ''aaaaaaaa'') None = ''creator''"
    "stored_nickname (members demo_room) (Some ''aaaaaaaa'') = Some ''creator''"
    "stored_nickname (members demo_room) (Some ''zzzzzzzz'') = None"
    "stored_nickname (members demo_room) None = None"
    "map_of (members demo_room) ''aaaaaaaa'' = Some ''creator''"
    "map_of (members demo_room) ''zzzzzzzz'' = None"
    by (simp_all add: demo_room_def sender_for_def stored_nickname_def)
  have pushed: "push_trim [] msg = [msg]" for msg
    by (simp add: push_trim_def MAX_MESSAGES_def)
  have known: "handleSend (demo_rt 5) ?h ?known (Some demo_room) = ?sent ''creator''"
    using send_missing_content_and_sender [OF live, of ?known "''hi''" "Some ''aaaaaaaa''" "Some ''bob''"]
    by (simp add: readJson_def text_of_def key_of_def vals randomId_demo_12 demo_rt_now pushed)
  have unused: "handleSend (demo_rt 5) ?h ?unused (Some demo_room) = ?sent ''creator''"
    using send_missing_content_and_sender [OF live, of ?unused "''hi''" "Some ''aaaaaaaa''" None]
    by (simp add: readJson_def key_of_def vals randomId_demo_12 demo_rt_now pushed)
  have unknown: "handleSend (demo_rt 5) ?h ?unknown (Some demo_room) = ?sent ''bob''"
    using send_missing_content_and_sender [OF live, of ?unknown "''hi''" "Some ''zzzzzzzz''" "Some ''bob''"]
    by (simp add: readJson_def text_of_def key_of_def object_prototype_keys_def vals
        randomId_demo_12 demo_rt_now pushed)
  have bare: "handleSend (demo_rt 5) ?h ?bare (Some demo_room) = ?sent ''anon''"
    using send_missing_content_and_sender [OF live, of ?bare "''hi''" None None]
    by (simp add: readJson_def text_of_def key_of_def vals randomId_demo_12 demo_rt_now pushed)
  have empty: "fst (handleSend (demo_rt 5) ?h ?empty (Some demo_room))
      = Inr (400, JObj [(''error'', JStr ''missing_content'')])"
    using send_missing_content_and_sender [OF live, of ?empty]
    by (simp add: readJson_def)
  show ?thesis
    using known unknown bare unused empty by simp
qed

text \<open>
  C8 as stated fails. The contents \<open>0\<close> and \<^verbatim>\<open>false\<close> are neither absent nor empty, and
  send answers \<^verbatim>\<open>missing_content\<close> for them. And for \<^verbatim>\<open>constructor\<close>, the id of no member,
  the sender stored is the text of the function the members object inherits under that
  key, not the sender \<^verbatim>\<open>bob\<close> the caller supplied.
\<close>

theorem send_falsy_content_counterexample:
  "handleSend (demo_rt 5) ''0123456789abcdef'' (Some (JObj [(''content'', JNum 0)])) (Some demo_room)
     = (Inr (400, JObj [(''error'', JStr ''missing_content'')]), Some demo_room)
   \<and> handleSend (demo_rt 5) ''0123456789abcdef'' (Some (JObj [(''content'', JBool False)]))
       (Some demo_room)
     = (Inr (400, JObj [(''error'', JStr ''missing_content'')]), Some demo_room)
   \<and> handleSend (demo_rt 5) ''0123456789abcdef''
       (Some (JObj [(''member_id'', JStr ''constructor''), (''sender'', JStr ''bob''),
                    (''content'', JStr ''hi'')])) (Some demo_room)
     = (Inr (200, JObj [(''id'', JStr ''aaaaaaaaaaaa''), (''timestamp'', JNum 5)]),
        Some (demo_room \<lparr> messages := [\<lparr> msg_id = ''aaaaaaaaaaaa'',
                                           sender = ''function Object() { [native code] }'',
                                           content = ''hi'', timestamp = 5 \<rparr>] \<rparr>))"
proof -
  have live: "now_at (demo_rt 5) 0 \<le> expires_at demo_room" "room_hash demo_room = ''0123456789abcdef''"
    by (simp_all add: demo_room_def demo_rt_def)
  have inherited: "obj_get (members demo_room) ''constructor'' = Builtin ''constructor''"
    by (simp add: obj_get_def demo_room_def object_prototype_keys_def)
  have vals: "messages demo_room = []"
    by (simp add: demo_room_def)
  show ?thesis
    by (simp add: send_live [OF live] readJson_def new_message_def resolve_sender_def or_else_def
        inherited builtin_text_def randomId_demo_12 vals demo_rt_now push_trim_def MAX_MESSAGES_def)
qed

lemma poll_live:
  assumes "now_at rt 0 \<le> expires_at room" "room_hash room = h"
  shows "handlePoll rt h q (Some room) =
     (Inr (200, JObj
        [(''messages'', JArr (map message_json
            (filter (\<lambda>m. greater_than (timestamp m) (since_of q)) (messages room)))),
         (''members'', JArr (map (\<lambda>(k, v). JStr v) (members room))),
         (''expires_at'', JNum (expires_at room)),
         (''message_count'', JNum (real (length (messages room))))]), Some room)"
  using assms
  by (simp add: handlePoll_def getRoom_live jsonResponse_def obj_values_def Let_def)

lemma new_message_timestamp: "new_message rt ms data = Inr msg \<Longrightarrow> timestamp msg = now_at rt 1"
  by (auto simp: new_message_def split: sum.splits)

lemma set_push_trim: "set (push_trim msgs msg) \<subseteq> insert msg (set msgs)"
proof -
  have "set (drop n (msgs @ [msg])) \<subseteq> insert msg (set msgs)" for n
    using set_drop_subset [of n "msgs @ [msg]"] by simp
  then show ?thesis
    unfolding push_trim_def Let_def by (simp del: drop_append)
qed

lemma after_epoch_handleSend:
  assumes "after_epoch st" "0 < now_at rt 1"
  shows "after_epoch (snd (handleSend rt h b st))"
proof (cases st)
  case None
  then show ?thesis by (simp add: absent_handlers after_epoch_def)
next
  case (Some room)
  show ?thesis
  proof (cases "now_at rt 0 \<le> expires_at room")
    case False
    then show ?thesis
      using Some by (simp add: expired_handlers after_epoch_def)
  next
    case True
    show ?thesis
    proof (cases "room_hash room = h")
      case False
      then show ?thesis
        using Some True assms(1) by (simp add: handleSend_def getRoom_live)
    next
      case h: True
      have "list_all (\<lambda>m. 0 < timestamp m) (push_trim (messages room) msg)"
        if "new_message rt (members room) (readJson b) = Inr msg" for msg
        using set_push_trim [of "messages room" msg] new_message_timestamp [OF that] assms Some
        by (auto simp: after_epoch_def list_all_iff)
      then show ?thesis
        using Some assms(1)
        by (auto simp: send_live [OF True h] after_epoch_def split: sum.splits)
    qed
  qed
qed

lemma after_epoch_others:
  assumes "after_epoch st"
  shows "after_epoch (snd (handleCreate rt h b st))"
    "after_epoch (snd (handleJoin rt h b st))"
    "after_epoch (snd (handlePoll rt h q st))"
    "after_epoch (snd (handleLeave rt h b st))"
    "after_epoch (snd (handleInfo rt h st))"
  using getRoom_cases [of "now_at rt 0" st] assms
  by (auto simp: handleCreate_def handleJoin_def handlePoll_def handleLeave_def handleInfo_def
      after_epoch_def saveRoom_def Let_def split: sum.splits jsval.splits)

lemma after_epoch_fetch:
  "after_epoch st \<Longrightarrow> 0 < now_at rt 1 \<Longrightarrow> after_epoch (snd (SOSRoom_fetch rt request st))"
  by (simp add: SOSRoom_fetch_def Let_def after_epoch_handleSend after_epoch_others)

lemma after_epoch_run:
  "after_epoch st \<Longrightarrow> list_all (\<lambda>(rt, request). 0 < now_at rt 1) reqs \<Longrightarrow>
   after_epoch (room_run reqs st)"
  by (induction reqs arbitrary: st) (auto simp: after_epoch_fetch)

text \<open>
  C3. For a live room and a time \<open>T\<close>, poll with \<open>since = T\<close> answers with exactly the
  stored messages whose timestamp is greater than \<open>T\<close>, in their stored order, the member
  names, \<open>expires_at\<close> and the number of stored messages, and leaves the storage as it
  is. The storage reached from nothing by requests handled at clock readings after the
  epoch holds positive timestamps only, so there poll with \<open>since = 0\<close>, or without the
  parameter, answers with all stored messages.
\<close>

theorem poll_returns_newer_messages:
  assumes "now_at rt 0 \<le> expires_at room" and "room_hash room = h"
  shows
    "handlePoll rt h (Some (Finite T)) (Some room) =
       (Inr (200, JObj
          [(''messages'', JArr (map message_json (filter (\<lambda>m. T < timestamp m) (messages room)))),
           (''members'', JArr (map (\<lambda>(k, v). JStr v) (members room))),
           (''expires_at'', JNum (expires_at room)),
           (''message_count'', JNum (real (length (messages room))))]), Some room)
     \<and> subseq (filter (\<lambda>m. T < timestamp m) (messages room)) (messages room)
     \<and> (list_all (\<lambda>(rt', request). 0 < now_at rt' 1) reqs \<and> room_run reqs None = Some room
          \<longrightarrow> handlePoll rt h (Some (Finite 0)) (Some room) =
               (Inr (200, JObj
                  [(''messages'', JArr (map message_json (messages room))),
                   (''members'', JArr (map (\<lambda>(k, v). JStr v) (members room))),
                   (''expires_at'', JNum (expires_at room)),
                   (''message_count'', JNum (real (length (messages room))))]), Some room)
              \<and> handlePoll rt h None (Some room) = handlePoll rt h (Some (Finite 0)) (Some room))"
proof -
  have all: "filter (\<lambda>m. 0 < timestamp m) (messages room) = messages room"
    if "list_all (\<lambda>(rt', request). 0 < now_at rt' 1) reqs" "room_run reqs None = Some room"
  proof -
    have "after_epoch (room_run reqs None)"
      by (rule after_epoch_run [OF _ that(1)]) (simp add: after_epoch_def)
    then show ?thesis
      using that(2) by (simp add: after_epoch_def list_all_iff)
  qed
  show ?thesis
    using all by (simp add: poll_live [OF assms] since_of_def)
qed

lemma randomId_demo_8: "randomId (demo_rt t) 8 = ''aaaaaaaa''"
  by (simp add: randomId_def demo_rt_def pick_0 upt_rec [of _ "numeral _"] upt_rec [of _ "Suc _"])

lemma demo_send_parts:
  "path_parts ''/room/0123456789abcdef/send'' = [''room'', ''0123456789abcdef'', ''send'']"
  by (simp add: path_parts_def)

lemma demo_run: "room_run demo_requests None = Some demo_chat"
proof -
  have created: "snd (SOSRoom_fetch (demo_rt 1) (post_request ''/room/0123456789abcdef/create''
                 (JObj [(''room_hash'', JStr ''0123456789abcdef'')])) None)
      = Some (demo_chat \<lparr> messages := [] \<rparr>)"
    by (simp add: SOSRoom_fetch_def post_request_def demo_create_parts handleCreate_def getRoom_absent
        readJson_def saveRoom_def Let_def randomId_demo_8 demo_rt_now demo_chat_def ROOM_TTL_SECONDS_def
        obj_set_def)
  have send: "snd (SOSRoom_fetch (demo_rt t) (post_request ''/room/0123456789abcdef/send''
                 (JObj [(''content'', JStr c)])) (Some (demo_chat \<lparr> messages := ms \<rparr>)))
      = Some (demo_chat \<lparr> messages := push_trim ms
            \<lparr> msg_id = ''aaaaaaaaaaaa'', sender = ''anon'', content = c, timestamp = t \<rparr> \<rparr>)"
    if "t \<le> 3601" "c \<noteq> []" for t c ms
  proof -
    have live: "now_at (demo_rt t) 0 \<le> expires_at (demo_chat \<lparr> messages := ms \<rparr>)"
      "room_hash (demo_chat \<lparr> messages := ms \<rparr>) = ''0123456789abcdef''"
      using that by (simp_all add: demo_rt_now demo_chat_def)
    show ?thesis
      using that(2)
      by (simp add: SOSRoom_fetch_def post_request_def demo_send_parts send_live [OF live] readJson_def
          new_message_def resolve_sender_def or_else_def randomId_demo_12 demo_rt_now)
  qed
  show ?thesis
    by (simp add: demo_requests_def created send push_trim_def MAX_MESSAGES_def) (simp add: demo_chat_def)
qed

theorem poll_returns_newer_messages_witness:
  "handlePoll (demo_rt 4) ''0123456789abcdef'' (Some (Finite 2)) (room_run demo_requests None) =
     (Inr (200, JObj
        [(''messages'', JArr [JObj [(''id'', JStr ''aaaaaaaaaaaa''), (''sender'', JStr ''anon''),
                                     (''content'', JStr ''two''), (''timestamp'', JNum 3)]]),
         (''members'', JArr [JStr ''creator'']),
         (''expires_at'', JNum 3601),
         (''message_count'', JNum 2)]), Some demo_chat)
   \<and> handlePoll (demo_rt 4) ''0123456789abcdef'' None (room_run demo_requests None) =
     (Inr (200, JObj
        [(''messages'', JArr [JObj [(''id'', JStr ''aaaaaaaaaaaa''), (''sender'', JStr ''anon''),
                                     (''content'', JStr ''one''), (''timestamp'', JNum 2)],
                               JObj [(''id'', JStr ''aaaaaaaaaaaa''), (''sender'', JStr ''anon''),
                                     (''content'', JStr ''two''), (''timestamp'', JNum 3)]]),
         (''members'', JArr [JStr ''creator'']),
         (''expires_at'', JNum 3601),
         (''message_count'', JNum 2)]), Some demo_chat)"
proof -
  have live: "now_at (demo_rt 4) 0 \<le> expires_at demo_chat" "room_hash demo_chat = ''0123456789abcdef''"
    by (simp_all add: demo_rt_now demo_chat_def)
  have clocks: "list_all (\<lambda>(rt', request). 0 < now_at rt' 1) demo_requests"
    by (simp add: demo_requests_def demo_rt_now)
  from poll_returns_newer_messages [OF live, of 2 demo_requests] clocks demo_run
  show ?thesis
    by (simp add: demo_chat_def message_json_def)
qed

section \<open>The rate limiter: escalation, denial and cooldown\<close>

lemma last_delay_index: "length RATE_LIMIT_DELAYS_SECONDS - 1 = 5"
  by (simp add: RATE_LIMIT_DELAYS_SECONDS_def)

lemma check_absent:
  "st (''ip:'' @ ip) = None \<Longrightarrow>
   check now ip st =
     (\<lparr> allowed = True, retry_after = 0 \<rparr>,
      st((''ip:'' @ ip) \<mapsto> \<lparr> count = 1, last_attempt = now \<rparr>))"
  by (simp add: check_def)

lemma check_present:
  "st (''ip:'' @ ip) = Some entry \<Longrightarrow>
   check now ip st =
     (if now - last_attempt entry > 1800
      then (\<lparr> allowed = True, retry_after = 0 \<rparr>,
            st((''ip:'' @ ip) \<mapsto> \<lparr> count = 1, last_attempt = now \<rparr>))
      else if [0, 10, 30, 60, 180, 300] ! min (count entry) 5 \<le> now - last_attempt entry
      then (\<lparr> allowed = True, retry_after = 0 \<rparr>,
            st((''ip:'' @ ip) \<mapsto> \<lparr> count = count entry + 1, last_attempt = now \<rparr>))
      else (\<lparr> allowed = False,
              retry_after = \<lceil>[0, 10, 30, 60, 180, 300] ! min (count entry) 5
                               - (now - last_attempt entry)\<rceil> \<rparr>, st))"
  unfolding check_def Let_def last_delay_index
  by (simp add: RATE_LIMIT_COOLDOWN_SECONDS_def RATE_LIMIT_DELAYS_SECONDS_def)

text \<open>
  C4. An entry whose last attempt is at most 1800 seconds old: the required delay is the
  entry of the table \<open>[0, 10, 30, 60, 180, 300]\<close> at index \<open>min count 5\<close>, and when the
  elapsed time reaches it, \<^verbatim>\<open>check\<close> writes \<open>count + 1\<close> and \<open>now\<close> and allows the
  attempt with \<open>retry_after = 0\<close>. For a fresh address: the check at time 0 is allowed
  and leaves count 1; a second check at time 0 is denied with \<open>retry_after = 10\<close>; a
  check at time 10 is allowed and leaves count 2; the next check at once is denied with
  \<open>retry_after = 30\<close>.
\<close>

theorem check_allowed_in_window:
  "(st (''ip:'' @ ip) = Some entry
      \<and> now - last_attempt entry \<le> 1800
      \<and> [0, 10, 30, 60, 180, 300] ! min (count entry) 5 \<le> now - last_attempt entry
    \<longrightarrow> check now ip st =
          (\<lparr> allowed = True, retry_after = 0 \<rparr>,
           st((''ip:'' @ ip) \<mapsto> \<lparr> count = count entry + 1, last_attempt = now \<rparr>)))
   \<and> check 0 ip Map.empty =
         (\<lparr> allowed = True, retry_after = 0 \<rparr>,
          [(''ip:'' @ ip) \<mapsto> \<lparr> count = 1, last_attempt = 0 \<rparr>])
   \<and> check 0 ip [(''ip:'' @ ip) \<mapsto> \<lparr> count = 1, last_attempt = 0 \<rparr>] =
         (\<lparr> allowed = False, retry_after = 10 \<rparr>,
          [(''ip:'' @ ip) \<mapsto> \<lparr> count = 1, last_attempt = 0 \<rparr>])
   \<and> check 10 ip [(''ip:'' @ ip) \<mapsto> \<lparr> count = 1, last_attempt = 0 \<rparr>] =
         (\<lparr> allowed = True, retry_after = 0 \<rparr>,
          [(''ip:'' @ ip) \<mapsto> \<lparr> count = 2, last_attempt = 10 \<rparr>])
   \<and> check 10 ip [(''ip:'' @ ip) \<mapsto> \<lparr> count = 2, last_attempt = 10 \<rparr>] =
         (\<lparr> allowed = False, retry_after = 30 \<rparr>,
          [(''ip:'' @ ip) \<mapsto> \<lparr> count = 2, last_attempt = 10 \<rparr>])"
  by (simp add: check_present check_absent numeral_2_eq_2)

theorem check_allowed_in_window_witness:
  "check 25 ''1.2.3.4'' [''ip:1.2.3.4'' \<mapsto> \<lparr> count = 1, last_attempt = 12 \<rparr>] =
     (\<lparr> allowed = True, retry_after = 0 \<rparr>,
      [''ip:1.2.3.4'' \<mapsto> \<lparr> count = 2, last_attempt = 25 \<rparr>])"
  using check_allowed_in_window [of "[''ip:1.2.3.4'' \<mapsto> \<lparr> count = 1, last_attempt = 12 \<rparr>]"
      "''1.2.3.4''" "\<lparr> count = 1, last_attempt = 12 \<rparr>" 25]
  by (simp add: numeral_2_eq_2)

text \<open>
  C5. Whenever \<^verbatim>\<open>check\<close> denies, an entry is stored for the address, its last attempt
  is inside the cooldown window, \<open>retry_after\<close> is the ceiling of the required delay less
  the elapsed time, and the storage is left as it was: neither \<open>count\<close> nor
  \<open>last_attempt\<close> changes.
\<close>

theorem check_denied_unmodified:
  "\<not> allowed (fst (check now ip st)) \<Longrightarrow>
   (\<exists>entry. st (''ip:'' @ ip) = Some entry
      \<and> now - last_attempt entry \<le> 1800
      \<and> now - last_attempt entry < [0, 10, 30, 60, 180, 300] ! min (count entry) 5
      \<and> retry_after (fst (check now ip st)) =
          \<lceil>[0, 10, 30, 60, 180, 300] ! min (count entry) 5 - (now - last_attempt entry)\<rceil>)
   \<and> snd (check now ip st) = st"
  by (cases "st (''ip:'' @ ip)") (auto simp: check_present check_absent split: if_splits)

theorem check_denied_unmodified_witness:
  "\<not> allowed (fst (check 3 ''1.2.3.4'' [''ip:1.2.3.4'' \<mapsto> \<lparr> count = 2, last_attempt = 1/2 \<rparr>]))
   \<and> retry_after (fst (check 3 ''1.2.3.4'' [''ip:1.2.3.4'' \<mapsto> \<lparr> count = 2, last_attempt = 1/2 \<rparr>])) = 28
   \<and> snd (check 3 ''1.2.3.4'' [''ip:1.2.3.4'' \<mapsto> \<lparr> count = 2, last_attempt = 1/2 \<rparr>])
       = [''ip:1.2.3.4'' \<mapsto> \<lparr> count = 2, last_attempt = 1/2 \<rparr>]"
proof -
  let ?st = "[''ip:1.2.3.4'' \<mapsto> \<lparr> count = 2, last_attempt = 1/2 :: real \<rparr>]"
  have denied: "\<not> allowed (fst (check 3 ''1.2.3.4'' ?st))"
    by (simp add: check_present)
  have c: "\<lceil>(55::real) / 2\<rceil> = 28"
    by (simp add: ceiling_eq_iff)
  from check_denied_unmodified [OF denied] c show ?thesis
    using denied by simp
qed

text \<open>
  C6. An attempt for an address with no entry, or more than 1800 seconds after the
  entry's last attempt, is allowed with \<open>retry_after = 0\<close>, and the stored count becomes
  1 whatever it was; so for count 5 and a check 1801 seconds after the last attempt.
\<close>

theorem check_after_cooldown_resets:
  "st (''ip:'' @ ip) = None
     \<or> (\<exists>entry. st (''ip:'' @ ip) = Some entry \<and> now - last_attempt entry > 1800) \<Longrightarrow>
   check now ip st =
     (\<lparr> allowed = True, retry_after = 0 \<rparr>,
      st((''ip:'' @ ip) \<mapsto> \<lparr> count = 1, last_attempt = now \<rparr>))"
  by (auto simp: check_present check_absent)

theorem check_after_cooldown_resets_witness:
  "check (100 + 1801) ''1.2.3.4'' [''ip:1.2.3.4'' \<mapsto> \<lparr> count = 5, last_attempt = 100 \<rparr>] =
     (\<lparr> allowed = True, retry_after = 0 \<rparr>,
      [''ip:1.2.3.4'' \<mapsto> \<lparr> count = 1, last_attempt = 100 + 1801 \<rparr>])"
  using check_after_cooldown_resets [of "[''ip:1.2.3.4'' \<mapsto> \<lparr> count = 5, last_attempt = 100 \<rparr>]"
      "''1.2.3.4''" "100 + 1801"]
  by simp

section \<open>The worker: room hashes that are not 16 characters long\<close>











end
